theory Spec2Isabelle
  imports Complex_Main "HOL-Library.Sublist"
begin

section \<open>ECMAScript strings\<close>

text \<open>
  A JavaScript string is a sequence of 16-bit code units. It is modelled as a
  \<^typ>\<open>string\<close> whose characters are the code units below 256: the paths, the JSON keys and
  the fixed messages of this program are in that range, and a string with a code unit beyond
  it is outside the model.

  \<^verbatim>\<open>String.prototype.trim\<close> removes white space and line terminators from both ends.
  Within the modelled range these are TAB, LF, VT, FF, CR, SPACE and NBSP.
\<close>

definition js_whitespace :: "char \<Rightarrow> bool" where
  "js_whitespace c \<longleftrightarrow>
     c \<in> {CHR 0x09, CHR 0x0A, CHR 0x0B, CHR 0x0C, CHR 0x0D, CHR 0x20, CHR 0xA0}"

definition trim :: "string \<Rightarrow> string" where
  "trim s = rev (dropWhile js_whitespace (rev (dropWhile js_whitespace s)))"

text \<open>
  \<^verbatim>\<open>s.includes(needle)\<close>: the needle occurs at some position of \<open>s\<close>. The search walks
  the positions from the left.
\<close>

fun js_includes :: "string \<Rightarrow> string \<Rightarrow> bool" where
  "js_includes [] needle = (needle = [])"
| "js_includes (c # cs) needle = (prefix needle (c # cs) \<or> js_includes cs needle)"

text \<open>
  \<^verbatim>\<open>s.split(sep)\<close> for a non-empty separator: the pieces between the occurrences of
  \<open>sep\<close>, found from the left without overlap. \<open>acc\<close> holds the current piece reversed.
  (For the empty separator JavaScript splits into code units; the program never does that,
  and the model returns the string as one piece.)
\<close>

function split_from :: "string \<Rightarrow> string \<Rightarrow> string \<Rightarrow> string list" where
  "split_from sep acc [] = [rev acc]"
| "split_from sep acc (c # cs) =
     (if sep \<noteq> [] \<and> prefix sep (c # cs)
      then rev acc # split_from sep [] (drop (length sep) (c # cs))
      else split_from sep (c # acc) cs)"
  by pat_completeness auto
termination
  by (relation "measure (\<lambda>(sep, acc, s). length s)") (auto simp: neq_Nil_conv)

definition js_split :: "string \<Rightarrow> string \<Rightarrow> string list" where
  "js_split s sep = split_from sep [] s"

section \<open>Page context of the chat assistant\<close>

text \<open>
  The mount effect of \<^verbatim>\<open>FleetChatAssistant\<close> reads \<^verbatim>\<open>window.location.pathname\<close> and
  stores the detected page in \<^verbatim>\<open>currentContextPage\<close>:
  \<^verbatim>\<open>
    let detectedPage = "unknown";
    if (currentPath.includes("/buses")) detectedPage = "busDashboard";
    else if (currentPath.includes("/routes")) detectedPage = "routes";
    else if (currentPath.includes("/stops-paths")) detectedPage = "stops_paths";
    else if (currentPath.includes("/vehicles")) detectedPage = "vehicles";
    else if (currentPath.includes("/drivers")) detectedPage = "drivers";
  \<close>
\<close>

definition detectedPage :: "string \<Rightarrow> string" where
  "detectedPage currentPath =
     (if js_includes currentPath ''/buses'' then ''busDashboard''
      else if js_includes currentPath ''/routes'' then ''routes''
      else if js_includes currentPath ''/stops-paths'' then ''stops_paths''
      else if js_includes currentPath ''/vehicles'' then ''vehicles''
      else if js_includes currentPath ''/drivers'' then ''drivers''
      else ''unknown'')"

section \<open>Values produced by \<^verbatim>\<open>JSON.parse\<close>\<close>

text \<open>
  The stream lines are parsed into untyped values (\<^verbatim>\<open>const data = JSON.parse(line)\<close>, of
  type \<^verbatim>\<open>any\<close>). A number is carried as the text that the ECMAScript operation
  \<^verbatim>\<open>ToString\<close> yields for it, which is all this program ever asks of a number. An object
  is the list of its own properties.
\<close>

datatype jsval =
    JUndefined
  | JNull
  | JBool bool
  | JNum string
  | JStr string
  | JArr "jsval list"
  | JObj "(string \<times> jsval) list"

text \<open>Values that may be thrown.\<close>

datatype exn =
    TypeError
  | SyntaxError
  | Error string
  | Rejected

text \<open>
  A property read \<^verbatim>\<open>v.k\<close>. Reading a property of \<^verbatim>\<open>undefined\<close> or \<^verbatim>\<open>null\<close> throws a
  \<^verbatim>\<open>TypeError\<close>. The program reads the properties \<^verbatim>\<open>type\<close>, \<^verbatim>\<open>content\<close>,
  \<^verbatim>\<open>payload\<close>, \<^verbatim>\<open>message\<close>, \<^verbatim>\<open>response\<close>, \<^verbatim>\<open>audio_base64\<close>, \<^verbatim>\<open>text\<close>, \<^verbatim>\<open>data\<close>,
  \<^verbatim>\<open>awaiting_confirmation\<close> and \<^verbatim>\<open>consequence_info\<close> only; no boolean, number, string or
  array has a property of one of these names, so the read yields \<^verbatim>\<open>undefined\<close> there.
\<close>

fun get_prop :: "jsval \<Rightarrow> string \<Rightarrow> exn + jsval" where
  "get_prop JUndefined k = Inl TypeError"
| "get_prop JNull k = Inl TypeError"
| "get_prop (JObj props) k = Inr (case map_of props k of None \<Rightarrow> JUndefined | Some v \<Rightarrow> v)"
| "get_prop v k = Inr JUndefined"

text \<open>\<^verbatim>\<open>xs.join(sep)\<close> on a list of strings.\<close>

fun js_join :: "string \<Rightarrow> string list \<Rightarrow> string" where
  "js_join sep [] = []"
| "js_join sep [x] = x"
| "js_join sep (x # y # ys) = x @ sep @ js_join sep (y # ys)"

text \<open>
  The string that \<^verbatim>\<open>s += v\<close> appends to a string \<open>s\<close>: \<^verbatim>\<open>ToString\<close> of the primitive
  value of \<open>v\<close>. An array joins its elements with commas, \<^verbatim>\<open>undefined\<close> and \<^verbatim>\<open>null\<close>
  elements contributing nothing. An object is converted by the \<^verbatim>\<open>toString\<close> it has; a value
  parsed from JSON has no function among its own properties, so an object with an own
  property \<^verbatim>\<open>toString\<close> has no primitive value and the conversion throws a \<^verbatim>\<open>TypeError\<close>,
  while every other object inherits the conversion to \<^verbatim>\<open>[object Object]\<close>.
\<close>

fun js_to_string :: "jsval \<Rightarrow> exn + string"
  and js_to_strings :: "jsval list \<Rightarrow> exn + string list" where
  "js_to_string JUndefined = Inr ''undefined''"
| "js_to_string JNull = Inr ''null''"
| "js_to_string (JBool b) = Inr (if b then ''true'' else ''false'')"
| "js_to_string (JNum s) = Inr s"
| "js_to_string (JStr s) = Inr s"
| "js_to_string (JArr vs) =
     (case js_to_strings vs of Inl e \<Rightarrow> Inl e | Inr ss \<Rightarrow> Inr (js_join '','' ss))"
| "js_to_string (JObj props) =
     (if map_of props ''toString'' = None then Inr ''[object Object]'' else Inl TypeError)"
| "js_to_strings [] = Inr []"
| "js_to_strings (v # vs) =
     (case (if v = JUndefined \<or> v = JNull then Inr [] else js_to_string v) of
        Inl e \<Rightarrow> Inl e
      | Inr s \<Rightarrow> (case js_to_strings vs of Inl e \<Rightarrow> Inl e | Inr ss \<Rightarrow> Inr (s # ss)))"

text \<open>Truthiness of a \<^verbatim>\<open>string | null\<close> state variable: \<^verbatim>\<open>null\<close> and \<^verbatim>\<open>""\<close> are falsy.\<close>

fun truthy :: "string option \<Rightarrow> bool" where
  "truthy None = False"
| "truthy (Some s) = (s \<noteq> [])"

text \<open>Truthiness of a parsed value: \<^verbatim>\<open>undefined\<close>, \<^verbatim>\<open>null\<close>, \<^verbatim>\<open>false\<close>, zero and the empty
  string are falsy.\<close>

fun js_truthy :: "jsval \<Rightarrow> bool" where
  "js_truthy JUndefined = False"
| "js_truthy JNull = False"
| "js_truthy (JBool b) = b"
| "js_truthy (JNum s) = (s \<noteq> ''0'')"
| "js_truthy (JStr s) = (s \<noteq> [])"
| "js_truthy (JArr vs) = True"
| "js_truthy (JObj props) = True"

section \<open>State of the chat assistant and of its voice hook\<close>

text \<open>
  The React state of \<^verbatim>\<open>FleetChatAssistant\<close> and of the hook \<^verbatim>\<open>useVoiceInteraction\<close> it
  calls, as records. The hook's arguments \<^verbatim>\<open>sessionId\<close> and \<^verbatim>\<open>contextPage\<close> are the
  component's \<^verbatim>\<open>chatSessionId\<close> and \<^verbatim>\<open>currentContextPage\<close>. Time stamps of messages, the
  audio player and the recorder are not modelled. State updates take effect in program
  order. The two handlers that read a streamed reply are given twice: run to their end with
  nothing in between (\<open>handleSend\<close>, \<open>handleConfirmAction\<close>), and one stretch between two
  \<^verbatim>\<open>await\<close>s at a time, where other handlers may run in between (\<open>client_step\<close>).
\<close>

datatype role = Assistant | User

record Message =
  role :: role
  content :: string
  image_opt :: "string option"

record confirmation_state =
  isVisible :: bool
  alertMessage :: jsval
  consequenceDetails :: jsval

record VoiceMessage =
  type_v :: role
  text_v :: jsval
  audio :: "jsval option"

datatype ready_state = CONNECTING | OPEN | CLOSING | CLOSED

text \<open>
  A socket made by \<^verbatim>\<open>connectWebSocket\<close>: its ready state, and the \<^verbatim>\<open>sessionId\<close> and
  \<^verbatim>\<open>contextPage\<close> that its \<^verbatim>\<open>onopen\<close> handler captured when it was made.
\<close>

record websocket =
  readyState :: ready_state
  init_session :: string
  init_context :: string

record voice_state =
  websocketRef :: "websocket option"
  voiceMessages :: "VoiceMessage list"
  needsConfirmation :: bool
  consequenceDetails_voice :: jsval
  processingActive :: bool

text \<open>What the program sends, and the trace of what it does to the outside.\<close>

record chat_body =
  message :: string
  session_id :: string
  context_page :: string
  image_base64 :: "string option"

datatype request =
    Chat_request chat_body
  | Tts_request jsval

datatype ws_message =
    Init string string
  | Update_context string
  | Audio string
  | Close

datatype logged = Text string | Val jsval | Thrown exn

datatype effect =
    Fetch request
  | Open_websocket
  | Ws_send ws_message
  | Console "logged list"
  | Play_audio jsval

record chat_state =
  chatMessages :: "Message list"
  userInput :: string
  isProcessing :: bool
  chatSessionId :: string
  currentContextPage :: string
  confirmationState :: confirmation_state
  isVoiceActive :: bool
  uploadedImage :: "string option"
  imagePreviewUrl :: "string option"
  voice :: voice_state
  trace :: "effect list"

text \<open>
  The outside: what \<^verbatim>\<open>fetch\<close> answers to a request, and \<^verbatim>\<open>JSON.parse\<close> (\<open>None\<close> when it
  throws a \<^verbatim>\<open>SyntaxError\<close>). A response body is the list of its decoded chunks, in arrival
  order, and how the reading ends: \<^verbatim>\<open>reader.read()\<close> reports \<^verbatim>\<open>done\<close> or rejects.
\<close>

datatype read_end = Done | Read_rejects

datatype body = Body "string list" read_end

datatype fetch_result =
    Fetch_rejects
  | Response bool "body option"

record env =
  fetch :: "request \<Rightarrow> fetch_result"
  JSON_parse :: "string \<Rightarrow> jsval option"

definition initial_voice :: voice_state where
  "initial_voice =
     \<lparr>websocketRef = None, voiceMessages = [], needsConfirmation = False,
      consequenceDetails_voice = JNull, processingActive = False\<rparr>"

definition hidden_confirmation :: confirmation_state where
  "hidden_confirmation = \<lparr>isVisible = False, alertMessage = JStr [], consequenceDetails = JNull\<rparr>"

definition initial_chat :: chat_state where
  "initial_chat =
     \<lparr>chatMessages =
        [\<lparr>role = Assistant,
          content = ''Hi! I'' @ [CHR 0x27] @ ''m Movi, your AI assistant. How can I help you today?'',
          image_opt = None\<rparr>],
      userInput = [], isProcessing = False, chatSessionId = [],
      currentContextPage = ''unknown'', confirmationState = hidden_confirmation,
      isVoiceActive = False, uploadedImage = None, imagePreviewUrl = None,
      voice = initial_voice, trace = []\<rparr>"

definition emit :: "effect \<Rightarrow> chat_state \<Rightarrow> chat_state" where
  "emit e st = st\<lparr>trace := trace st @ [e]\<rparr>"

definition push_message :: "Message \<Rightarrow> chat_state \<Rightarrow> chat_state" where
  "push_message m st = st\<lparr>chatMessages := chatMessages st @ [m]\<rparr>"

text \<open>The page detection effect, run once when the component mounts.\<close>

definition detect_page_effect :: "string \<Rightarrow> chat_state \<Rightarrow> chat_state" where
  "detect_page_effect pathname st = st\<lparr>currentContextPage := detectedPage pathname\<rparr>"

text \<open>The session effect, run once when the component mounts, with the identifier it makes
  from the clock and a random number; typing into the input; an image that has been read as
  a data URL (\<^verbatim>\<open>reader.onloadend\<close> in \<^verbatim>\<open>handleImageFile\<close>); and the button that switches to
  voice mode.\<close>

definition session_effect :: "string \<Rightarrow> chat_state \<Rightarrow> chat_state" where
  "session_effect sid st = st\<lparr>chatSessionId := sid\<rparr>"

definition type_input :: "string \<Rightarrow> chat_state \<Rightarrow> chat_state" where
  "type_input typed st = st\<lparr>userInput := typed\<rparr>"

definition image_loaded :: "string \<Rightarrow> chat_state \<Rightarrow> chat_state" where
  "image_loaded base64String st =
     st\<lparr>uploadedImage := Some base64String, imagePreviewUrl := Some base64String\<rparr>"

definition enter_voice_mode :: "chat_state \<Rightarrow> chat_state" where
  "enter_voice_mode st =
     (if chatSessionId st = [] then emit (Console [Text ''Session not ready yet'']) st
      else st\<lparr>isVoiceActive := True\<rparr>)"

section \<open>Reading the streamed reply\<close>

text \<open>
  The updater that shows the accumulated reply:
  \<^verbatim>\<open>
    setChatMessages(prev => {
      const updatedMessages = [...prev];
      const lastMessage = updatedMessages[updatedMessages.length - 1];
      if (lastMessage.role === "assistant") { lastMessage.content = accumulatedResponse; }
      return updatedMessages;
    });
  \<close>
  On an empty list the read of \<^verbatim>\<open>lastMessage.role\<close> would throw inside React; both callers
  append a message before the loop, so the list is never empty there
  (\<open>stream_loop_messages_nonempty\<close> below), and the model leaves an empty list as it is.
\<close>

definition update_last_message :: "string \<Rightarrow> Message list \<Rightarrow> Message list" where
  "update_last_message accumulatedResponse prev =
     (if prev \<noteq> [] \<and> role (last prev) = Assistant
      then butlast prev @ [(last prev)\<lparr>content := accumulatedResponse\<rparr>]
      else prev)"

text \<open>
  The body of the inner \<^verbatim>\<open>try\<close> for one non-blank line. The loop state is the local
  variable \<^verbatim>\<open>accumulatedResponse\<close> paired with the component state. \<open>with_confirmation\<close>
  tells the loop of \<^verbatim>\<open>handleSend\<close>, which has the \<^verbatim>\<open>"confirmation"\<close> branch, from the loop
  of \<^verbatim>\<open>handleConfirmAction\<close>, which has not; the two loops are the same otherwise.
\<close>

definition try_line ::
  "env \<Rightarrow> bool \<Rightarrow> string \<times> chat_state \<Rightarrow> string \<Rightarrow> exn + string \<times> chat_state" where
  "try_line env with_confirmation s line =
     (case JSON_parse env line of
        None \<Rightarrow> Inl SyntaxError
      | Some data \<Rightarrow>
          (case get_prop data ''type'' of
             Inl e \<Rightarrow> Inl e
           | Inr t \<Rightarrow>
               if t = JStr ''token'' then
                 (case get_prop data ''content'' of
                    Inl e \<Rightarrow> Inl e
                  | Inr c \<Rightarrow>
                      (case js_to_string c of
                         Inl e \<Rightarrow> Inl e
                       | Inr appended \<Rightarrow>
                           let accumulatedResponse = fst s @ appended
                           in Inr (accumulatedResponse,
                                   (snd s)\<lparr>chatMessages :=
                                      update_last_message accumulatedResponse
                                        (chatMessages (snd s))\<rparr>)))
               else if with_confirmation \<and> t = JStr ''confirmation'' then
                 (case get_prop data ''payload'' of
                    Inl e \<Rightarrow> Inl e
                  | Inr payload \<Rightarrow>
                      (case get_prop payload ''message'' of
                         Inl e \<Rightarrow> Inl e
                       | Inr m \<Rightarrow>
                           Inr (fst s,
                                (snd s)\<lparr>confirmationState :=
                                   \<lparr>isVisible = True, alertMessage = m,
                                    consequenceDetails = payload\<rparr>\<rparr>)))
               else if t = JStr ''error'' then
                 (case get_prop data ''content'' of
                    Inl e \<Rightarrow> Inl e
                  | Inr c \<Rightarrow> Inr (fst s, emit (Console [Text ''Stream error:'', Val c]) (snd s)))
               else Inr s))"

text \<open>One iteration of \<^verbatim>\<open>for (const line of lines)\<close>: blank lines are skipped, and whatever
  the body throws is caught and logged.\<close>

definition process_line ::
  "env \<Rightarrow> bool \<Rightarrow> string \<times> chat_state \<Rightarrow> string \<Rightarrow> string \<times> chat_state" where
  "process_line env with_confirmation s line =
     (if trim line = [] then s
      else case try_line env with_confirmation s line of
             Inl e \<Rightarrow>
               (fst s, emit (Console [Text ''Error parsing stream line:'', Text line, Thrown e]) (snd s))
           | Inr s' \<Rightarrow> s')"

definition process_lines ::
  "env \<Rightarrow> bool \<Rightarrow> string list \<Rightarrow> string \<times> chat_state \<Rightarrow> string \<times> chat_state" where
  "process_lines env with_confirmation lines s = foldl (process_line env with_confirmation) s lines"

text \<open>The \<^verbatim>\<open>while (true)\<close> loop over the chunks that \<^verbatim>\<open>reader.read()\<close> delivers; each chunk is
  split at line feeds on its own.\<close>

definition stream_loop ::
  "env \<Rightarrow> bool \<Rightarrow> string list \<Rightarrow> string \<times> chat_state \<Rightarrow> string \<times> chat_state" where
  "stream_loop env with_confirmation chunks s =
     foldl (\<lambda>s chunk. process_lines env with_confirmation (js_split chunk [CHR 0x0A]) s) s chunks"

definition placeholder :: Message where
  "placeholder = \<lparr>role = Assistant, content = [], image_opt = None\<rparr>"

text \<open>
  What both handlers do with the answer of \<^verbatim>\<open>fetch\<close>, up to the end of the outer \<^verbatim>\<open>try\<close>
  block: the result is the value thrown, if any, and the state reached.
\<close>

definition receive_reply ::
  "env \<Rightarrow> bool \<Rightarrow> fetch_result \<Rightarrow> chat_state \<Rightarrow> exn option \<times> chat_state" where
  "receive_reply env with_confirmation result st =
     (case result of
        Fetch_rejects \<Rightarrow> (Some Rejected, st)
      | Response ok b \<Rightarrow>
          if \<not> ok then (Some (Error ''Failed to get response from Movi''), st)
          else
            let st1 = push_message placeholder st
            in (case b of
                  None \<Rightarrow> (Some (Error ''No reader available''), st1)
                | Some (Body chunks ending) \<Rightarrow>
                    let s = stream_loop env with_confirmation chunks ([], st1)
                    in ((case ending of Done \<Rightarrow> None | Read_rejects \<Rightarrow> Some Rejected), snd s)))"

section \<open>\<^verbatim>\<open>handleSend\<close>\<close>

definition userMessage_of :: "chat_state \<Rightarrow> string" where
  "userMessage_of st =
     (if userInput st = [] then ''What'' @ [CHR 0x27] @ ''s in this image?'' else userInput st)"

text \<open>The request body; \<^verbatim>\<open>undefined\<close> properties are not sent.\<close>

definition request_body :: "string \<Rightarrow> string option \<Rightarrow> chat_state \<Rightarrow> chat_body" where
  "request_body userMessage imageToSend st =
     \<lparr>message = userMessage,
      session_id = chatSessionId st,
      context_page = currentContextPage st,
      image_base64 =
        (case imageToSend of
           None \<Rightarrow> None
         | Some img \<Rightarrow>
             if img = [] then None
             else if js_includes img ''base64,''
             then (case js_split img ''base64,'' of _ # base64Data # _ \<Rightarrow> Some base64Data | _ \<Rightarrow> None)
             else Some img)\<rparr>"

text \<open>The state when the \<^verbatim>\<open>try\<close> block is entered: the user's message is in the chat, the
  pending image is cleared, the processing flag is set.\<close>

definition begin_send :: "chat_state \<Rightarrow> chat_state" where
  "begin_send st =
     (push_message
        \<lparr>role = User, content = userMessage_of st,
         image_opt = (if truthy (uploadedImage st) then uploadedImage st else None)\<rparr>
        (st\<lparr>userInput := []\<rparr>))
     \<lparr>uploadedImage := None, imagePreviewUrl := None, isProcessing := True\<rparr>"

definition apology :: Message where
  "apology =
     \<lparr>role = Assistant, content = ''Sorry, I encountered an error. Please try again.'',
      image_opt = None\<rparr>"

definition handleSend :: "env \<Rightarrow> chat_state \<Rightarrow> chat_state" where
  "handleSend env st =
     (if (trim (userInput st) = [] \<and> \<not> truthy (uploadedImage st)) \<or> isProcessing st then st
      else
        let st1 = begin_send st;
            requestBody = request_body (userMessage_of st) (uploadedImage st) st1;
            st2 = emit (Fetch (Chat_request requestBody)) st1;
            r = receive_reply env True (fetch env (Chat_request requestBody)) st2;
            st3 = (case fst r of
                     None \<Rightarrow> snd r
                   | Some error \<Rightarrow>
                       push_message apology
                         (emit (Console [Text ''Error calling Movi:'', Thrown error]) (snd r)))
        in st3\<lparr>isProcessing := False\<rparr>)"

section \<open>The voice hook\<close>

text \<open>
  \<^verbatim>\<open>connectWebSocket\<close> and the mount effect of \<^verbatim>\<open>useVoiceInteraction\<close>, both behind the guard
  \<^verbatim>\<open>if (!sessionId || sessionId.trim() === '') return;\<close>. Pictographs at the head of
  console texts are left out. The component reads the state of the hook under the names
  \<^verbatim>\<open>messages\<close>, \<^verbatim>\<open>requiresConfirmation\<close> and \<^verbatim>\<open>consequenceInfo\<close>, which the returned object
  does not bind to the state variables of this file; they are taken to be \<^verbatim>\<open>voiceMessages\<close>,
  \<^verbatim>\<open>needsConfirmation\<close> and \<^verbatim>\<open>consequenceDetails\<close>, as in the sibling hook
  \<^verbatim>\<open>useVoiceChat\<close>. Read to the letter, the \<^verbatim>\<open>return\<close> statement of \<^verbatim>\<open>useVoiceInteraction\<close>
  names six identifiers that the file does not declare (\<^verbatim>\<open>isRecording\<close>, \<^verbatim>\<open>isProcessing\<close>,
  \<^verbatim>\<open>isSpeaking\<close>, \<^verbatim>\<open>messages\<close>, \<^verbatim>\<open>requiresConfirmation\<close>, \<^verbatim>\<open>consequenceInfo\<close>), so that the
  first call of the hook throws a \<^verbatim>\<open>ReferenceError\<close> and none of its effects and handlers
  ever runs. The model gives the hook the behaviour of its handlers all the same: it has
  every behaviour of the file as written and more, so what is shown never to happen in the
  model does not happen in the file either.
\<close>

definition connectWebSocket :: "chat_state \<Rightarrow> chat_state" where
  "connectWebSocket st =
     (if chatSessionId st = [] \<or> trim (chatSessionId st) = []
      then emit (Console [Text ''Cannot connect WebSocket without valid session ID'']) st
      else (emit Open_websocket st)
             \<lparr>voice := (voice st)
                \<lparr>websocketRef :=
                   Some \<lparr>readyState = CONNECTING, init_session = chatSessionId st,
                         init_context = currentContextPage st\<rparr>\<rparr>\<rparr>)"

definition voice_mount_effect :: "chat_state \<Rightarrow> chat_state" where
  "voice_mount_effect st =
     (if chatSessionId st = [] \<or> trim (chatSessionId st) = []
      then emit (Console [Text ''Session ID not ready, delaying WebSocket connection'']) st
      else connectWebSocket
             (emit (Console [Text (''Initializing voice WebSocket with session: '' @ chatSessionId st)])
                st))"

text \<open>The cleanup of the mount effect: a close message on an open socket, then \<^verbatim>\<open>close()\<close>.
  The reference keeps pointing at the closed socket.\<close>

definition voice_cleanup :: "chat_state \<Rightarrow> chat_state" where
  "voice_cleanup st =
     (case websocketRef (voice st) of
        None \<Rightarrow> st
      | Some ws \<Rightarrow>
          (if readyState ws = OPEN then emit (Ws_send Close) st else st)
            \<lparr>voice := (voice st)
               \<lparr>websocketRef :=
                  Some (ws\<lparr>readyState := (if readyState ws = CLOSED then CLOSED else CLOSING)\<rparr>)\<rparr>\<rparr>)"

text \<open>The socket of the reference opens (\<^verbatim>\<open>ws.onopen\<close>): the initialization message carries
  the identifiers captured when the socket was made.\<close>

definition ws_onopen :: "chat_state \<Rightarrow> chat_state" where
  "ws_onopen st =
     (case websocketRef (voice st) of
        None \<Rightarrow> st
      | Some ws \<Rightarrow>
          if readyState ws \<noteq> CONNECTING then st
          else (emit (Ws_send (Init (init_session ws) (init_context ws)))
                  (emit (Console [Text ''Voice WebSocket connected'']) st))
                 \<lparr>voice := (voice st)\<lparr>websocketRef := Some (ws\<lparr>readyState := OPEN\<rparr>)\<rparr>\<rparr>)"

definition ws_onclose :: "chat_state \<Rightarrow> chat_state" where
  "ws_onclose st =
     (case websocketRef (voice st) of
        None \<Rightarrow> st
      | Some ws \<Rightarrow>
          (emit (Console [Text ''Voice WebSocket disconnected'']) st)
            \<lparr>voice := (voice st)\<lparr>websocketRef := Some (ws\<lparr>readyState := CLOSED\<rparr>)\<rparr>\<rparr>)"

text \<open>The effect on \<^verbatim>\<open>contextPage\<close>.\<close>

definition context_effect :: "chat_state \<Rightarrow> chat_state" where
  "context_effect st =
     (case websocketRef (voice st) of
        None \<Rightarrow> st
      | Some ws \<Rightarrow>
          if readyState ws = OPEN then emit (Ws_send (Update_context (currentContextPage st))) st
          else st)"

definition set_processingActive :: "bool \<Rightarrow> chat_state \<Rightarrow> chat_state" where
  "set_processingActive b st = st\<lparr>voice := (voice st)\<lparr>processingActive := b\<rparr>\<rparr>"

text \<open>A recording has been read as a data URL (\<^verbatim>\<open>reader.onloadend\<close> in \<^verbatim>\<open>mediaRecorder.onstop\<close>).\<close>

definition recording_loaded :: "string \<Rightarrow> chat_state \<Rightarrow> chat_state" where
  "recording_loaded base64Audio st =
     (case websocketRef (voice st) of
        None \<Rightarrow> st
      | Some ws \<Rightarrow>
          if readyState ws = OPEN
          then emit (Ws_send (Audio base64Audio)) (set_processingActive True st)
          else st)"

text \<open>
  The component's \<^verbatim>\<open>onError\<close> callback shows the error text in the chat:
  \<^verbatim>\<open>error.split('\n').map((line, idx) => idx === 0 ? `**Voice Error:** ${line}` : line).join('\n')\<close>.
\<close>

definition onError :: "string \<Rightarrow> chat_state \<Rightarrow> chat_state" where
  "onError error st =
     push_message
       \<lparr>role = Assistant,
        content =
          (case js_split error [CHR 0x0A] of
             [] \<Rightarrow> []
           | line # lines \<Rightarrow> js_join [CHR 0x0A] ((''**Voice Error:** '' @ line) # lines)),
        image_opt = None\<rparr>
       (emit (Console [Text ''Voice error:'', Text error]) st)"

text \<open>
  The socket of the reference delivers a message (\<^verbatim>\<open>ws.onmessage\<close>). Nothing catches what the
  handler throws, so a text that does not parse, the value \<^verbatim>\<open>null\<close> and an error message that
  is not a string (on which \<^verbatim>\<open>split\<close> fails in \<^verbatim>\<open>onError\<close>) end the handler where they
  occur.
\<close>

definition ws_onmessage :: "env \<Rightarrow> string \<Rightarrow> chat_state \<Rightarrow> chat_state" where
  "ws_onmessage env event_data st =
     (case websocketRef (voice st) of
        None \<Rightarrow> st
      | Some ws \<Rightarrow>
          if readyState ws \<noteq> OPEN then st
          else
            (case JSON_parse env event_data of
               None \<Rightarrow> st
             | Some data \<Rightarrow>
                 (case get_prop data ''type'' of
                    Inl e \<Rightarrow> st
                  | Inr t \<Rightarrow>
                      if t = JStr ''ready'' then emit (Console [Text ''Voice session ready'']) st
                      else if t = JStr ''transcription'' then
                        (case get_prop data ''text'' of
                           Inl e \<Rightarrow> st
                         | Inr txt \<Rightarrow>
                             (emit (Console [Text ''Transcription:'', Val txt]) st)
                               \<lparr>voice := (voice st)
                                  \<lparr>voiceMessages := voiceMessages (voice st) @
                                     [\<lparr>type_v = User, text_v = txt, audio = None\<rparr>]\<rparr>\<rparr>)
                      else if t = JStr ''audio_response'' then
                        (case (get_prop data ''text'', get_prop data ''data'',
                               get_prop data ''awaiting_confirmation'',
                               get_prop data ''consequence_info'') of
                           (Inr txt, Inr a, Inr awaiting, Inr info) \<Rightarrow>
                             emit (Play_audio a)
                               ((emit (Console [Text ''Received audio response'']) st)
                                  \<lparr>voice := (voice st)
                                     \<lparr>processingActive := False,
                                      voiceMessages := voiceMessages (voice st) @
                                        [\<lparr>type_v = Assistant, text_v = txt, audio = Some a\<rparr>],
                                      needsConfirmation :=
                                        (if js_truthy awaiting \<and> js_truthy info then True
                                         else needsConfirmation (voice st)),
                                      consequenceDetails_voice :=
                                        (if js_truthy awaiting \<and> js_truthy info then info
                                         else consequenceDetails_voice (voice st))\<rparr>\<rparr>)
                         | _ \<Rightarrow> st)
                      else if t = JStr ''error'' then
                        (case get_prop data ''message'' of
                           Inl e \<Rightarrow> st
                         | Inr m \<Rightarrow>
                             (case m of
                                JStr msg \<Rightarrow>
                                  onError msg
                                    (set_processingActive False
                                       (emit (Console [Text ''Voice error:'', Val m]) st))
                              | _ \<Rightarrow>
                                  emit (Console [Text ''Voice error:'', Val m])
                                    (set_processingActive False
                                       (emit (Console [Text ''Voice error:'', Val m]) st))))
                      else st)))"

text \<open>
  The component's effect on the confirmation state of the hook: with a session identifier, a
  pending confirmation and its (truthy) consequence information, the dialog opens.
\<close>

definition voice_confirmation_effect :: "chat_state \<Rightarrow> chat_state" where
  "voice_confirmation_effect st =
     (if chatSessionId st \<noteq> [] \<and> needsConfirmation (voice st) \<and>
         js_truthy (consequenceDetails_voice (voice st))
      then (case get_prop (consequenceDetails_voice (voice st)) ''message'' of
              Inl e \<Rightarrow> st
            | Inr m \<Rightarrow>
                st\<lparr>confirmationState :=
                     \<lparr>isVisible = True, alertMessage = m,
                      consequenceDetails = consequenceDetails_voice (voice st)\<rparr>\<rparr>)
      else st)"

text \<open>\<^verbatim>\<open>await response.json()\<close>: the whole body is read and parsed.\<close>

definition json_of :: "env \<Rightarrow> fetch_result \<Rightarrow> exn + jsval" where
  "json_of env result =
     (case result of
        Fetch_rejects \<Rightarrow> Inl Rejected
      | Response ok b \<Rightarrow>
          (case b of
             Some (Body chunks Read_rejects) \<Rightarrow> Inl Rejected
           | _ \<Rightarrow>
               (case JSON_parse env (case b of None \<Rightarrow> [] | Some (Body chunks ending) \<Rightarrow> concat chunks) of
                  None \<Rightarrow> Inl SyntaxError
                | Some data \<Rightarrow> Inr data)))"

text \<open>The \<^verbatim>\<open>try\<close> block of \<^verbatim>\<open>sendConfirmation\<close> after its first \<^verbatim>\<open>fetch\<close>.\<close>

definition confirm_reply :: "env \<Rightarrow> fetch_result \<Rightarrow> chat_state \<Rightarrow> exn option \<times> chat_state" where
  "confirm_reply env result st =
     (case json_of env result of
        Inl e \<Rightarrow> (Some e, st)
      | Inr data \<Rightarrow>
          (case get_prop data ''response'' of
             Inl e \<Rightarrow> (Some e, st)
           | Inr response \<Rightarrow>
               let st1 = emit (Fetch (Tts_request response)) st
               in (case json_of env (fetch env (Tts_request response)) of
                     Inl e \<Rightarrow> (Some e, st1)
                   | Inr audioData \<Rightarrow>
                       (case get_prop audioData ''audio_base64'' of
                          Inl e \<Rightarrow> (Some e, st1)
                        | Inr a \<Rightarrow>
                            (None,
                             set_processingActive False
                               (emit (Play_audio a)
                                  (st1\<lparr>voice := (voice st1)
                                     \<lparr>voiceMessages := voiceMessages (voice st1) @
                                        [\<lparr>type_v = Assistant, text_v = response,
                                          audio = Some a\<rparr>]\<rparr>\<rparr>)))))))"

definition sendConfirmation :: "env \<Rightarrow> bool \<Rightarrow> chat_state \<Rightarrow> chat_state" where
  "sendConfirmation env confirmed st =
     (let confirmMessage = (if confirmed then ''yes'' else ''no'');
          st1 = st\<lparr>voice := (voice st)
                  \<lparr>voiceMessages := voiceMessages (voice st) @
                     [\<lparr>type_v = User, text_v = JStr confirmMessage, audio = None\<rparr>],
                   needsConfirmation := False,
                   consequenceDetails_voice := JNull\<rparr>\<rparr>
      in case websocketRef (voice st1) of
           None \<Rightarrow> st1
         | Some ws \<Rightarrow>
             if readyState ws \<noteq> OPEN then st1
             else
               let requestBody =
                     \<lparr>message = confirmMessage, session_id = chatSessionId st1,
                      context_page = currentContextPage st1, image_base64 = None\<rparr>;
                   st2 = emit (Fetch (Chat_request requestBody)) (set_processingActive True st1);
                   r = confirm_reply env (fetch env (Chat_request requestBody)) st2
               in (case fst r of
                     None \<Rightarrow> snd r
                   | Some error \<Rightarrow>
                       onError ''Failed to send confirmation''
                         (set_processingActive False
                            (emit (Console [Text ''Error sending confirmation:'', Thrown error])
                               (snd r)))))"

section \<open>\<^verbatim>\<open>handleConfirmAction\<close>\<close>

definition confirmation_apology :: Message where
  "confirmation_apology =
     \<lparr>role = Assistant,
      content = ''Sorry, I encountered an error processing your confirmation.'',
      image_opt = None\<rparr>"

definition handleConfirmAction :: "env \<Rightarrow> bool \<Rightarrow> chat_state \<Rightarrow> chat_state" where
  "handleConfirmAction env confirmed st =
     (let st0 = st\<lparr>confirmationState := hidden_confirmation\<rparr>
      in if isVoiceActive st0 then sendConfirmation env confirmed st0
         else
           let confirmMessage = (if confirmed then ''yes'' else ''no'');
               st1 = (push_message \<lparr>role = User, content = confirmMessage, image_opt = None\<rparr> st0)
                       \<lparr>isProcessing := True\<rparr>;
               requestBody =
                 \<lparr>message = confirmMessage, session_id = chatSessionId st1,
                  context_page = currentContextPage st1, image_base64 = None\<rparr>;
               st2 = emit (Fetch (Chat_request requestBody)) st1;
               r = receive_reply env False (fetch env (Chat_request requestBody)) st2;
               st3 = (case fst r of
                        None \<Rightarrow> snd r
                      | Some error \<Rightarrow>
                          push_message confirmation_apology
                            (emit (Console [Text ''Error sending confirmation:'', Thrown error])
                               (snd r)))
           in st3\<lparr>isProcessing := False\<rparr>)"

text \<open>What can happen to the hook, one event after the other.\<close>

datatype hook_event =
    Mount
  | Cleanup
  | Context_changed
  | Socket_opened
  | Socket_closed
  | Socket_message string
  | Recording_loaded string
  | Confirmation bool

fun hook_step :: "env \<Rightarrow> chat_state \<Rightarrow> hook_event \<Rightarrow> chat_state" where
  "hook_step env st Mount = voice_mount_effect st"
| "hook_step env st Cleanup = voice_cleanup st"
| "hook_step env st Context_changed = context_effect st"
| "hook_step env st Socket_opened = ws_onopen st"
| "hook_step env st Socket_closed = ws_onclose st"
| "hook_step env st (Socket_message event_data) = ws_onmessage env event_data st"
| "hook_step env st (Recording_loaded base64Audio) = recording_loaded base64Audio st"
| "hook_step env st (Confirmation confirmed) = sendConfirmation env confirmed st"

definition hook_run :: "env \<Rightarrow> hook_event list \<Rightarrow> chat_state \<Rightarrow> chat_state" where
  "hook_run env events st = foldl (hook_step env) st events"

text \<open>The effects that reach the network.\<close>

fun on_network :: "effect \<Rightarrow> bool" where
  "on_network (Fetch r) = True"
| "on_network Open_websocket = True"
| "on_network (Ws_send m) = True"
| "on_network (Console args) = False"
| "on_network (Play_audio a) = False"

definition network :: "chat_state \<Rightarrow> effect list" where
  "network st = filter on_network (trace st)"

section \<open>The handlers across their awaits\<close>

text \<open>
  \<^verbatim>\<open>handleSend\<close> and \<^verbatim>\<open>handleConfirmAction\<close> are \<^verbatim>\<open>async\<close> functions. A call runs without
  interruption up to \<^verbatim>\<open>await fetch(...)\<close>, then from the answer up to the first
  \<^verbatim>\<open>await reader.read()\<close>, then from each chunk up to the next read; between two of these
  stretches other handlers run. After the first \<^verbatim>\<open>await\<close> a call reads no state variable of
  the component: it works on its local variables and writes through the setters, the list
  of messages through updaters of the previous value.

  A call that has not returned is a run. It waits for the answer to its request, or for the
  next read with its local \<^verbatim>\<open>accumulatedResponse\<close>, the chunks that the reader has yet to
  deliver and the way the reading ends. The flag tells the loop of \<^verbatim>\<open>handleSend\<close> from the
  loop of \<^verbatim>\<open>handleConfirmAction\<close>, as in \<open>try_line\<close>.
\<close>

datatype run =
    Awaiting_fetch bool request
  | Awaiting_read bool string "string list" read_end

text \<open>The \<^verbatim>\<open>catch\<close> and \<^verbatim>\<open>finally\<close> blocks of the two handlers.\<close>

definition end_of_run :: "bool \<Rightarrow> exn option \<Rightarrow> chat_state \<Rightarrow> chat_state" where
  "end_of_run with_confirmation thrown st =
     (case thrown of
        None \<Rightarrow> st
      | Some error \<Rightarrow>
          if with_confirmation
          then push_message apology
                 (emit (Console [Text ''Error calling Movi:'', Thrown error]) st)
          else push_message confirmation_apology
                 (emit (Console [Text ''Error sending confirmation:'', Thrown error]) st))
     \<lparr>isProcessing := False\<rparr>"

text \<open>One stretch of a run, from the \<^verbatim>\<open>await\<close> that has settled to the next one or to the
  end of the handler; \<open>None\<close> when the handler has returned.\<close>

fun continue_run :: "env \<Rightarrow> run \<Rightarrow> chat_state \<Rightarrow> run option \<times> chat_state" where
  "continue_run env (Awaiting_fetch with_confirmation r) st =
     (case fetch env r of
        Fetch_rejects \<Rightarrow> (None, end_of_run with_confirmation (Some Rejected) st)
      | Response ok b \<Rightarrow>
          if \<not> ok
          then (None, end_of_run with_confirmation
                        (Some (Error ''Failed to get response from Movi'')) st)
          else
            (case b of
               None \<Rightarrow>
                 (None, end_of_run with_confirmation (Some (Error ''No reader available''))
                          (push_message placeholder st))
             | Some (Body chunks ending) \<Rightarrow>
                 (Some (Awaiting_read with_confirmation [] chunks ending),
                  push_message placeholder st)))"
| "continue_run env (Awaiting_read with_confirmation accumulatedResponse [] ending) st =
     (None, end_of_run with_confirmation
              (case ending of Done \<Rightarrow> None | Read_rejects \<Rightarrow> Some Rejected) st)"
| "continue_run env (Awaiting_read with_confirmation accumulatedResponse (chunk # chunks) ending) st =
     (let s = process_lines env with_confirmation (js_split chunk [CHR 0x0A])
                (accumulatedResponse, st)
      in (Some (Awaiting_read with_confirmation (fst s) chunks ending), snd s))"

text \<open>The first stretch of \<^verbatim>\<open>handleSend\<close> and of \<^verbatim>\<open>handleConfirmAction\<close>, up to the
  \<^verbatim>\<open>await\<close> of \<^verbatim>\<open>fetch\<close>. In voice mode \<^verbatim>\<open>handleConfirmAction\<close> hands over to
  \<^verbatim>\<open>sendConfirmation\<close>, whose own awaits are not taken apart.\<close>

definition start_send :: "chat_state \<Rightarrow> run option \<times> chat_state" where
  "start_send st =
     (if (trim (userInput st) = [] \<and> \<not> truthy (uploadedImage st)) \<or> isProcessing st
      then (None, st)
      else
        let st1 = begin_send st;
            requestBody = request_body (userMessage_of st) (uploadedImage st) st1
        in (Some (Awaiting_fetch True (Chat_request requestBody)),
            emit (Fetch (Chat_request requestBody)) st1))"

definition start_confirm :: "env \<Rightarrow> bool \<Rightarrow> chat_state \<Rightarrow> run option \<times> chat_state" where
  "start_confirm env confirmed st =
     (let st0 = st\<lparr>confirmationState := hidden_confirmation\<rparr>
      in if isVoiceActive st0 then (None, sendConfirmation env confirmed st0)
         else
           let confirmMessage = (if confirmed then ''yes'' else ''no'');
               st1 = (push_message \<lparr>role = User, content = confirmMessage, image_opt = None\<rparr> st0)
                       \<lparr>isProcessing := True\<rparr>;
               requestBody =
                 \<lparr>message = confirmMessage, session_id = chatSessionId st1,
                  context_page = currentContextPage st1, image_base64 = None\<rparr>
           in (Some (Awaiting_fetch False (Chat_request requestBody)),
               emit (Fetch (Chat_request requestBody)) st1))"

text \<open>
  The client: the state of the component and the runs that have not returned, oldest first.
  What happens to it, one event after the other: the send button or the Enter key, a button
  of the confirmation dialog, typing, an image that has been read, an event of the voice
  hook, and the settling of the promise that the run at a position of the list awaits. What
  \<^verbatim>\<open>fetch\<close> and the reader deliver is fixed by the outside; when they deliver it is not.
\<close>

record client =
  ui :: chat_state
  runs :: "run list"

datatype client_event =
    Send_clicked
  | Confirm_clicked bool
  | Input_typed string
  | Image_read string
  | Hook hook_event
  | Settled nat

definition add_run :: "run option \<times> chat_state \<Rightarrow> client \<Rightarrow> client" where
  "add_run r c =
     \<lparr>ui = snd r, runs = (case fst r of None \<Rightarrow> runs c | Some t \<Rightarrow> runs c @ [t])\<rparr>"

fun client_step :: "env \<Rightarrow> client \<Rightarrow> client_event \<Rightarrow> client" where
  "client_step env c Send_clicked = add_run (start_send (ui c)) c"
| "client_step env c (Confirm_clicked confirmed) = add_run (start_confirm env confirmed (ui c)) c"
| "client_step env c (Input_typed typed) = c\<lparr>ui := type_input typed (ui c)\<rparr>"
| "client_step env c (Image_read base64String) = c\<lparr>ui := image_loaded base64String (ui c)\<rparr>"
| "client_step env c (Hook e) = c\<lparr>ui := hook_step env (ui c) e\<rparr>"
| "client_step env c (Settled i) =
     (if i < length (runs c)
      then (case continue_run env (runs c ! i) (ui c) of
              (None, st) \<Rightarrow> \<lparr>ui = st, runs = take i (runs c) @ drop (Suc i) (runs c)\<rparr>
            | (Some t, st) \<Rightarrow> \<lparr>ui = st, runs = (runs c)[i := t]\<rparr>)
      else c)"

definition client_run :: "env \<Rightarrow> client_event list \<Rightarrow> client \<Rightarrow> client" where
  "client_run env events c = foldl (client_step env) c events"

section \<open>The progress bar\<close>

text \<open>
  \<^verbatim>\<open>const percentage = Math.min(Math.max((value / max) * 100, 0), 100);\<close>

  A JavaScript number is a finite double, an infinity or \<^verbatim>\<open>NaN\<close>. A finite double is
  modelled by the real number it denotes, and zero stands for \<^verbatim>\<open>+0\<close>. The rounding of an
  exact result to a double is the parameter \<open>fl\<close>, which may also overflow to an infinity;
  the identity \<^term>\<open>Fin\<close> is arithmetic without rounding.
\<close>

datatype jsnum = Fin real | PInf | NInf | NaN

fun js_div :: "(real \<Rightarrow> jsnum) \<Rightarrow> jsnum \<Rightarrow> jsnum \<Rightarrow> jsnum" where
  "js_div fl NaN b = NaN"
| "js_div fl a NaN = NaN"
| "js_div fl (Fin x) (Fin y) =
     (if y = 0 then (if x = 0 then NaN else if 0 < x then PInf else NInf) else fl (x / y))"
| "js_div fl (Fin x) PInf = Fin 0"
| "js_div fl (Fin x) NInf = Fin 0"
| "js_div fl PInf (Fin y) = (if 0 \<le> y then PInf else NInf)"
| "js_div fl NInf (Fin y) = (if 0 \<le> y then NInf else PInf)"
| "js_div fl PInf b = NaN"
| "js_div fl NInf b = NaN"

fun js_mul :: "(real \<Rightarrow> jsnum) \<Rightarrow> jsnum \<Rightarrow> jsnum \<Rightarrow> jsnum" where
  "js_mul fl NaN b = NaN"
| "js_mul fl a NaN = NaN"
| "js_mul fl (Fin x) (Fin y) = fl (x * y)"
| "js_mul fl (Fin x) PInf = (if x = 0 then NaN else if 0 < x then PInf else NInf)"
| "js_mul fl (Fin x) NInf = (if x = 0 then NaN else if 0 < x then NInf else PInf)"
| "js_mul fl PInf (Fin y) = (if y = 0 then NaN else if 0 < y then PInf else NInf)"
| "js_mul fl NInf (Fin y) = (if y = 0 then NaN else if 0 < y then NInf else PInf)"
| "js_mul fl PInf PInf = PInf"
| "js_mul fl PInf NInf = NInf"
| "js_mul fl NInf PInf = NInf"
| "js_mul fl NInf NInf = PInf"

text \<open>\<^verbatim>\<open>Math.max\<close> and \<^verbatim>\<open>Math.min\<close> of two numbers: \<^verbatim>\<open>NaN\<close> if either is \<^verbatim>\<open>NaN\<close>.\<close>

fun Math_max :: "jsnum \<Rightarrow> jsnum \<Rightarrow> jsnum" where
  "Math_max NaN b = NaN"
| "Math_max a NaN = NaN"
| "Math_max PInf b = PInf"
| "Math_max a PInf = PInf"
| "Math_max NInf b = b"
| "Math_max a NInf = a"
| "Math_max (Fin x) (Fin y) = Fin (max x y)"

fun Math_min :: "jsnum \<Rightarrow> jsnum \<Rightarrow> jsnum" where
  "Math_min NaN b = NaN"
| "Math_min a NaN = NaN"
| "Math_min NInf b = NInf"
| "Math_min a NInf = NInf"
| "Math_min PInf b = b"
| "Math_min a PInf = a"
| "Math_min (Fin x) (Fin y) = Fin (min x y)"

definition percentage :: "(real \<Rightarrow> jsnum) \<Rightarrow> jsnum \<Rightarrow> jsnum \<Rightarrow> jsnum" where
  "percentage fl value max_v =
     Math_min (Math_max (js_mul fl (js_div fl value max_v) (Fin 100)) (Fin 0)) (Fin 100)"

text \<open>A number within the closed interval from 0 to 100.\<close>

fun within_0_100 :: "jsnum \<Rightarrow> bool" where
  "within_0_100 (Fin p) = (0 \<le> p \<and> p \<le> 100)"
| "within_0_100 v = False"

section \<open>The confirmation pipeline\<close>

text \<open>
  Modelled from the spec: the pipeline engine (the orchestrator, the Safety Gate, the Action
  Executor, the checkpoint store and the tool registry of the backend) is not among the
  sources, which hold the web client only. The definitions of this section follow sections
  3 to 6 of the specification. The persistence collaborator is a state of an arbitrary type
  \<open>'db\<close>; the completion collaborator, the Consequence Resolver and the registry are
  parameters.
\<close>

datatype impact = Normal | High

type_synonym entities = "(string \<times> jsval) list"

text \<open>Modelled from the spec: the tool descriptor, the execution result, the state threaded
  through the stages, the interrupt payload and the checkpoint of sections 3 and 6, which
  are not among the sources. A handler performs its one operation on the persistent state
  and returns a result payload, or throws with a message.\<close>

record 'db tool_descriptor =
  parameter_schema :: "(string \<times> bool) list"
  impact_level :: impact
  handler :: "entities \<Rightarrow> 'db \<Rightarrow> (string + jsval) \<times> 'db"

record exec_result =
  success :: bool
  payload :: jsval
  error :: "string option"

record AgentState =
  raw_message :: string
  ui_context :: string
  conversation_history :: "(role \<times> string) list"
  image_payload :: "string option"
  derived_image_summary :: "string option"
  intent :: "string option"
  selected_tool :: "string option"
  extracted_entities :: "entities option"
  needs_clarification :: bool
  impact_assessment :: "jsval option"
  awaiting_confirmation :: bool
  execution_result :: "exec_result option"

datatype interrupt_payload = InterruptPayload string jsval

record checkpoint =
  checkpoint_session_id :: string
  agent_state_snapshot :: AgentState
  suspended_at_stage :: string

text \<open>Modelled from the spec: the collaborators of section 6 and the state of the engine,
  which are not among the sources. The completion collaborator gives the outcome of the
  Intent and Tool Selector for one turn, the Consequence Resolver reads the persistent state
  and gives a message and a structured consequence, and the engine holds the persistent
  state, the checkpoint store, the latest snapshot of every session and the leases that are
  held. A call either replies, interrupts, finds the lease taken or finds no checkpoint.\<close>

record selection =
  sel_intent :: "string option"
  sel_tool :: "string option"
  sel_entities :: entities
  sel_image_summary :: "string option"
  sel_needs_clarification :: bool

record 'db collaborators =
  registry :: "string \<Rightarrow> 'db tool_descriptor option"
  selector :: "string \<Rightarrow> string \<Rightarrow> (role \<times> string) list \<Rightarrow> string option \<Rightarrow> selection"
  resolve_consequence :: "string \<Rightarrow> entities \<Rightarrow> 'db \<Rightarrow> string \<times> jsval"
  synthesize :: "AgentState \<Rightarrow> string"

record 'db engine =
  persistence :: 'db
  checkpoints :: "string \<Rightarrow> checkpoint option"
  snapshots :: "string \<Rightarrow> AgentState option"
  leases :: "string set"

datatype outcome =
    Reply string
  | Interrupt interrupt_payload
  | Busy
  | No_checkpoint

text \<open>Modelled from the spec: the Action Executor of section 4.3, which is not among the
  sources. An unknown tool and a missing required parameter give a failure without a call
  of any handler; what a handler throws becomes a failure.\<close>

definition missing_parameters :: "(string \<times> bool) list \<Rightarrow> entities \<Rightarrow> string list" where
  "missing_parameters schema ents =
     map fst (filter (\<lambda>(name, required). required \<and> map_of ents name = None) schema)"

definition action_executor ::
  "'db collaborators \<Rightarrow> string \<Rightarrow> entities \<Rightarrow> 'db \<Rightarrow> exec_result \<times> 'db" where
  "action_executor co tool ents db =
     (case registry co tool of
        None \<Rightarrow> (\<lparr>success = False, payload = JNull, error = Some ''unknown_tool''\<rparr>, db)
      | Some d \<Rightarrow>
          if missing_parameters (parameter_schema d) ents \<noteq> []
          then (\<lparr>success = False, payload = JNull,
                 error = Some (''missing required parameters: '' @
                               js_join '', '' (missing_parameters (parameter_schema d) ents))\<rparr>, db)
          else (case handler d ents db of
                  (Inr result, db') \<Rightarrow> (\<lparr>success = True, payload = result, error = None\<rparr>, db')
                | (Inl msg, db') \<Rightarrow> (\<lparr>success = False, payload = JNull, error = Some msg\<rparr>, db')))"

text \<open>Modelled from the spec: the Reply Synthesizer of section 4.4, which is not among the
  sources. It ends a run: the reply joins the history, the state becomes the session's
  snapshot.\<close>

definition reply_synthesizer ::
  "'db collaborators \<Rightarrow> string \<Rightarrow> AgentState \<Rightarrow> 'db engine \<Rightarrow> outcome \<times> 'db engine" where
  "reply_synthesizer co sid a eng =
     (let reply = synthesize co a;
          a' = a\<lparr>conversation_history := conversation_history a @ [(Assistant, reply)]\<rparr>
      in (Reply reply, eng\<lparr>snapshots := (snapshots eng)(sid \<mapsto> a')\<rparr>))"

text \<open>Modelled from the spec: the state that the Intent and Tool Selector of section 4.1
  leaves, which is not among the sources. The history is that of the session's snapshot; a
  need for clarification leaves no tool selected.\<close>

definition session_history :: "'db engine \<Rightarrow> string \<Rightarrow> (role \<times> string) list" where
  "session_history eng sid =
     (case snapshots eng sid of None \<Rightarrow> [] | Some a \<Rightarrow> conversation_history a)"

definition intent_tool_selector ::
  "'db collaborators \<Rightarrow> string \<Rightarrow> string \<Rightarrow> (role \<times> string) list \<Rightarrow> string option \<Rightarrow> AgentState" where
  "intent_tool_selector co raw ctx history img =
     (let sel = selector co raw ctx history img;
          clarify = (sel_needs_clarification sel \<or> sel_tool sel = None)
      in \<lparr>raw_message = raw, ui_context = ctx,
          conversation_history = history @ [(User, raw)],
          image_payload = img,
          derived_image_summary = sel_image_summary sel,
          intent = sel_intent sel,
          selected_tool = (if clarify then None else sel_tool sel),
          extracted_entities = Some (sel_entities sel),
          needs_clarification = clarify,
          impact_assessment = None,
          awaiting_confirmation = False,
          execution_result = None\<rparr>)"

definition entities_of :: "AgentState \<Rightarrow> entities" where
  "entities_of a = (case extracted_entities a of None \<Rightarrow> [] | Some ents \<Rightarrow> ents)"

text \<open>Modelled from the spec: the run of the Action Executor and the Reply Synthesizer on a
  state with a tool (sections 4.3 and 4.4), which is not among the sources.\<close>

definition execute_and_reply ::
  "'db collaborators \<Rightarrow> string \<Rightarrow> string \<Rightarrow> AgentState \<Rightarrow> 'db engine \<Rightarrow> outcome \<times> 'db engine" where
  "execute_and_reply co sid tool a eng =
     (let r = action_executor co tool (entities_of a) (persistence eng)
      in reply_synthesizer co sid (a\<lparr>execution_result := Some (fst r)\<rparr>)
           (eng\<lparr>persistence := snd r\<rparr>))"

text \<open>Modelled from the spec: the suspension of section 4.2, step 3, which is not among the
  sources. The state with the impact assessment is put into the checkpoint store under the
  session identifier, and the caller gets the interrupt payload.\<close>

definition suspend ::
  "'db collaborators \<Rightarrow> string \<Rightarrow> string \<Rightarrow> AgentState \<Rightarrow> 'db engine \<Rightarrow> outcome \<times> 'db engine" where
  "suspend co sid tool a eng =
     (let r = resolve_consequence co tool (entities_of a) (persistence eng);
          a' = a\<lparr>impact_assessment := Some (snd r), awaiting_confirmation := True\<rparr>
      in (Interrupt (InterruptPayload (fst r) (snd r)),
          eng\<lparr>checkpoints := (checkpoints eng)
                 (sid \<mapsto> \<lparr>checkpoint_session_id = sid, agent_state_snapshot = a',
                          suspended_at_stage = ''safety_gate''\<rparr>),
              snapshots := (snapshots eng)(sid \<mapsto> a')\<rparr>))"

text \<open>
  Modelled from the spec: the entry point
  \<^verbatim>\<open>submit(session_id, raw_message, ui_context, image_payload?)\<close> of section 6, which is not
  among the sources: the lease, the selector, the Safety Gate (section 4.2, steps 1 to 3),
  the executor and the reply. A run takes the lease and gives it back within the call, so
  the set of leases held by other runs is what it finds and leaves.
\<close>

definition submit ::
  "'db collaborators \<Rightarrow> string \<Rightarrow> string \<Rightarrow> string \<Rightarrow> string option \<Rightarrow> 'db engine
     \<Rightarrow> outcome \<times> 'db engine" where
  "submit co sid raw ctx img eng =
     (if sid \<in> leases eng then (Busy, eng)
      else
        let a = intent_tool_selector co raw ctx (session_history eng sid) img
        in case selected_tool a of
             None \<Rightarrow> reply_synthesizer co sid a eng
           | Some tool \<Rightarrow>
               (case registry co tool of
                  None \<Rightarrow> execute_and_reply co sid tool a eng
                | Some d \<Rightarrow>
                    if impact_level d = High then suspend co sid tool a eng
                    else execute_and_reply co sid tool a eng))"

text \<open>
  Modelled from the spec: the entry point \<^verbatim>\<open>resume(session_id, approved)\<close> of section 6
  (section 4.2, step 4), which is not among the sources. The checkpoint is consumed; a
  rejection goes to the reply without the executor; an approval runs the executor on the
  tool and the entities of the checkpoint. Without a checkpoint there is nothing to resume.
\<close>

definition resume ::
  "'db collaborators \<Rightarrow> string \<Rightarrow> bool \<Rightarrow> 'db engine \<Rightarrow> outcome \<times> 'db engine" where
  "resume co sid approved eng =
     (if sid \<in> leases eng then (Busy, eng)
      else case checkpoints eng sid of
             None \<Rightarrow> (No_checkpoint, eng)
           | Some cp \<Rightarrow>
               let a = (agent_state_snapshot cp)\<lparr>awaiting_confirmation := False\<rparr>;
                   eng1 = eng\<lparr>checkpoints := (checkpoints eng)(sid := None)\<rparr>
               in if \<not> approved
                  then reply_synthesizer co sid
                         (a\<lparr>execution_result :=
                              Some \<lparr>success = False, payload = JNull,
                                    error = Some ''cancelled_by_user''\<rparr>\<rparr>)
                         eng1
                  else
                    (case selected_tool a of
                       Some tool \<Rightarrow> execute_and_reply co sid tool a eng1
                     | None \<Rightarrow>
                         reply_synthesizer co sid
                           (a\<lparr>execution_result :=
                                Some \<lparr>success = False, payload = JNull,
                                      error = Some ''unknown_tool''\<rparr>\<rparr>)
                           eng1))"

section \<open>Notions used in the statements\<close>

text \<open>The guard of \<^verbatim>\<open>handleSend\<close>, negated: the handler goes on when there is a message or an
  image to send and no request is being processed.\<close>

definition may_send :: "chat_state \<Rightarrow> bool" where
  "may_send st \<longleftrightarrow> \<not> ((trim (userInput st) = [] \<and> \<not> truthy (uploadedImage st)) \<or> isProcessing st)"

text \<open>The entry that \<^verbatim>\<open>handleSend\<close> appends for the user, the body of the request it sends, and
  the state in which its reading loop starts: the request is out, the empty assistant entry
  is in the chat.\<close>

definition user_entry :: "chat_state \<Rightarrow> Message" where
  "user_entry st =
     \<lparr>role = User, content = userMessage_of st,
      image_opt = (if truthy (uploadedImage st) then uploadedImage st else None)\<rparr>"

definition send_request :: "chat_state \<Rightarrow> chat_body" where
  "send_request st = request_body (userMessage_of st) (uploadedImage st) (begin_send st)"

definition loop_start :: "chat_state \<Rightarrow> chat_state" where
  "loop_start st = push_message placeholder (emit (Fetch (Chat_request (send_request st))) (begin_send st))"

text \<open>The lines that the loop sees for a list of chunks, the values parsed from the lines that
  are not blank (the stream events), the events of type \<^verbatim>\<open>"token"\<close>, and the text that a list
  of events adds to the reply.\<close>

definition lines_of :: "string list \<Rightarrow> string list" where
  "lines_of chunks = concat (map (\<lambda>chunk. js_split chunk [CHR 0x0A]) chunks)"

definition stream_events :: "env \<Rightarrow> string list \<Rightarrow> jsval list" where
  "stream_events env lines =
     List.map_filter (\<lambda>line. if trim line = [] then None else JSON_parse env line) lines"

definition is_token :: "jsval \<Rightarrow> bool" where
  "is_token data \<longleftrightarrow> get_prop data ''type'' = Inr (JStr ''token'')"

definition content_text :: "jsval \<Rightarrow> string" where
  "content_text data =
     (case get_prop data ''content'' of
        Inl e \<Rightarrow> []
      | Inr c \<Rightarrow> (case js_to_string c of Inl e \<Rightarrow> [] | Inr appended \<Rightarrow> appended))"

definition tokens_text :: "jsval list \<Rightarrow> string" where
  "tokens_text events = concat (map content_text (filter is_token events))"

text \<open>The assistant entry holding the text streamed by a list of chunks.\<close>

definition streamed_entry :: "env \<Rightarrow> string list \<Rightarrow> Message" where
  "streamed_entry env chunks =
     \<lparr>role = Assistant, content = tokens_text (stream_events env (lines_of chunks)),
      image_opt = None\<rparr>"

text \<open>The payload of a stream event of type \<^verbatim>\<open>"confirmation"\<close> that carries one, the
  dialog that shows a payload, and the dialog that a list of events leaves: that of the last
  event with a payload, if there is one.\<close>

definition confirmation_payload :: "jsval \<Rightarrow> jsval option" where
  "confirmation_payload data =
     (if get_prop data ''type'' = Inr (JStr ''confirmation'')
      then (case get_prop data ''payload'' of
              Inl e \<Rightarrow> None
            | Inr p \<Rightarrow> if p = JUndefined \<or> p = JNull then None else Some p)
      else None)"

definition dialog_of :: "jsval \<Rightarrow> confirmation_state" where
  "dialog_of p =
     \<lparr>isVisible = True,
      alertMessage = (case get_prop p ''message'' of Inl e \<Rightarrow> JUndefined | Inr m \<Rightarrow> m),
      consequenceDetails = p\<rparr>"

definition dialog_after :: "jsval list \<Rightarrow> confirmation_state \<Rightarrow> confirmation_state" where
  "dialog_after events d =
     foldl (\<lambda>d data. case confirmation_payload data of None \<Rightarrow> d | Some p \<Rightarrow> dialog_of p) d events"

text \<open>The chunks that the reader delivers for an answer of \<^verbatim>\<open>fetch\<close>; a client in
  which the processing flag is set exactly when a run is in flight, and then only one; and
  chunks of which each ends with a line feed, so that no line is cut.\<close>

definition body_chunks :: "fetch_result \<Rightarrow> string list" where
  "body_chunks result =
     (case result of
        Fetch_rejects \<Rightarrow> []
      | Response ok b \<Rightarrow>
          (case b of None \<Rightarrow> [] | Some (Body chunks ending) \<Rightarrow> if ok then chunks else []))"

definition single_flight :: "client \<Rightarrow> bool" where
  "single_flight c \<longleftrightarrow> (if isProcessing (ui c) then length (runs c) = 1 else runs c = [])"

definition uncut :: "string list \<Rightarrow> bool" where
  "uncut chunks \<longleftrightarrow> list_all (\<lambda>chunk. chunk \<noteq> [] \<and> last chunk = CHR 0x0A) chunks"

text \<open>Two states differ in what is displayed and logged only: the messages, the confirmation
  dialog and console output.\<close>

definition display_only :: "chat_state \<Rightarrow> chat_state \<Rightarrow> bool" where
  "display_only st st' \<longleftrightarrow>
     userInput st' = userInput st \<and> isProcessing st' = isProcessing st \<and>
     chatSessionId st' = chatSessionId st \<and> currentContextPage st' = currentContextPage st \<and>
     isVoiceActive st' = isVoiceActive st \<and> uploadedImage st' = uploadedImage st \<and>
     imagePreviewUrl st' = imagePreviewUrl st \<and> voice st' = voice st \<and>
     (\<exists>logs. trace st' = trace st @ map Console logs)"

text \<open>The entry that \<^verbatim>\<open>handleConfirmAction\<close> appends for the user's decision in text mode, and
  the body of the request it sends.\<close>

definition confirm_entry :: "bool \<Rightarrow> Message" where
  "confirm_entry confirmed =
     \<lparr>role = User, content = (if confirmed then ''yes'' else ''no''), image_opt = None\<rparr>"

definition confirm_request :: "bool \<Rightarrow> chat_state \<Rightarrow> chat_body" where
  "confirm_request confirmed st =
     \<lparr>message = (if confirmed then ''yes'' else ''no''), session_id = chatSessionId st,
      context_page = currentContextPage st, image_base64 = None\<rparr>"

text \<open>The bodies of the chat requests in the trace of a state, and whether the voice socket is
  open.\<close>

fun chat_request_of :: "effect \<Rightarrow> chat_body option" where
  "chat_request_of (Fetch (Chat_request b)) = Some b"
| "chat_request_of e = None"

definition chat_requests :: "chat_state \<Rightarrow> chat_body list" where
  "chat_requests st = List.map_filter chat_request_of (trace st)"

definition socket_open :: "chat_state \<Rightarrow> bool" where
  "socket_open st \<longleftrightarrow>
     (case websocketRef (voice st) of None \<Rightarrow> False | Some ws \<Rightarrow> readyState ws = OPEN)"

text \<open>A session identifier that is empty or white space only; a component that has just
  mounted with a session identifier and a page; and the two invariants of the voice hook:
  with a blank identifier there is no socket, and every initialization message, sent or
  pending, carries the identifier of the component, which is not blank.\<close>

definition blank :: "string \<Rightarrow> bool" where
  "blank s \<longleftrightarrow> (\<forall>c \<in> set s. js_whitespace c)"

definition mounted :: "string \<Rightarrow> string \<Rightarrow> chat_state" where
  "mounted sid ctx = initial_chat\<lparr>chatSessionId := sid, currentContextPage := ctx\<rparr>"

definition no_socket :: "chat_state \<Rightarrow> bool" where
  "no_socket st \<longleftrightarrow> blank (chatSessionId st) \<and> websocketRef (voice st) = None"

definition init_sound :: "chat_state \<Rightarrow> bool" where
  "init_sound st \<longleftrightarrow>
     (\<forall>ws. websocketRef (voice st) = Some ws \<longrightarrow>
        init_session ws = chatSessionId st \<and> \<not> blank (chatSessionId st)) \<and>
     (\<forall>s c. Ws_send (Init s c) \<in> set (trace st) \<longrightarrow> s = chatSessionId st \<and> \<not> blank s)"

text \<open>Modelled from the spec, for the pipeline that is not among the sources: the state after
  the selector for a submitted message, and the engine that a submit leaves.\<close>

definition analysed ::
  "'db collaborators \<Rightarrow> string \<Rightarrow> string \<Rightarrow> string \<Rightarrow> string option \<Rightarrow> 'db engine \<Rightarrow> AgentState" where
  "analysed co sid raw ctx img eng = intent_tool_selector co raw ctx (session_history eng sid) img"

definition suspended ::
  "'db collaborators \<Rightarrow> string \<Rightarrow> string \<Rightarrow> string \<Rightarrow> string option \<Rightarrow> 'db engine \<Rightarrow> 'db engine" where
  "suspended co sid raw ctx img eng = snd (submit co sid raw ctx img eng)"

section \<open>Example runs\<close>

text \<open>A server that streams two tokens and an error event in two chunks, a network that is
  down, a message of the voice socket that asks for a confirmation, and a parser that knows
  the texts of these examples.\<close>

definition example_audio_response :: string where
  \<open>example_audio_response =
     ''{"type":"audio_response","text":"Sure?","data":"QUJD",'' @
     ''"awaiting_confirmation":true,"consequence_info":{"message":"Sure?"}}''\<close>

definition example_parse :: "string \<Rightarrow> jsval option" where
  \<open>example_parse line =
     (if line = ''{"type":"token","content":"Hi"}''
      then Some (JObj [(''type'', JStr ''token''), (''content'', JStr ''Hi'')])
      else if line = ''{"type":"token","content":" there"}''
      then Some (JObj [(''type'', JStr ''token''), (''content'', JStr '' there'')])
      else if line = ''{"type":"confirmation","payload":{"message":"Sure?"}}''
      then Some (JObj [(''type'', JStr ''confirmation''),
                       (''payload'', JObj [(''message'', JStr ''Sure?'')])])
      else if line = ''{"type":"confirmation"}''
      then Some (JObj [(''type'', JStr ''confirmation'')])
      else if line = ''{"type":"error","content":"boom"}''
      then Some (JObj [(''type'', JStr ''error''), (''content'', JStr ''boom'')])
      else if line = example_audio_response
      then Some (JObj [(''type'', JStr ''audio_response''), (''text'', JStr ''Sure?''),
                       (''data'', JStr ''QUJD''), (''awaiting_confirmation'', JBool True),
                       (''consequence_info'', JObj [(''message'', JStr ''Sure?'')])])
      else None)\<close>

definition example_chunks :: "string list" where
  \<open>example_chunks =
     [''{"type":"token","content":"Hi"}'' @ [CHR 0x0A],
      ''{"type":"token","content":" there"}'' @ [CHR 0x0A] @
      ''{"type":"error","content":"boom"}'' @ [CHR 0x0A]]\<close>

definition example_env :: env where
  "example_env =
     \<lparr>fetch = (\<lambda>r. Response True (Some (Body example_chunks Done))), JSON_parse = example_parse\<rparr>"

definition failing_env :: env where
  "failing_env = \<lparr>fetch = (\<lambda>r. Fetch_rejects), JSON_parse = example_parse\<rparr>"

text \<open>A server that streams the given chunks. The two tokens with every chunk ending at the
  end of a line, and the same text cut inside the second line. A reply that asks for a
  confirmation after its first token, and one whose confirmation event has no payload. A
  server that asks for a confirmation and answers the decision with the two tokens.\<close>

definition serving :: "string list \<Rightarrow> env" where
  "serving chunks =
     \<lparr>fetch = (\<lambda>r. Response True (Some (Body chunks Done))), JSON_parse = example_parse\<rparr>"

definition whole_chunks :: "string list" where
  \<open>whole_chunks =
     [''{"type":"token","content":"Hi"}'' @ [CHR 0x0A],
      ''{"type":"token","content":" there"}'' @ [CHR 0x0A]]\<close>

definition cut_chunks :: "string list" where
  \<open>cut_chunks =
     [''{"type":"token","content":"Hi"}'' @ [CHR 0x0A] @ ''{"type":"token","con'',
      ''tent":" there"}'' @ [CHR 0x0A]]\<close>

definition asking_chunks :: "string list" where
  \<open>asking_chunks =
     [''{"type":"token","content":"Hi"}'' @ [CHR 0x0A] @
      ''{"type":"confirmation","payload":{"message":"Sure?"}}'' @ [CHR 0x0A]]\<close>


definition asking_env :: env where
  "asking_env =
     \<lparr>fetch = (\<lambda>r. case r of
                 Chat_request b \<Rightarrow>
                   if message b = ''yes'' then Response True (Some (Body whole_chunks Done))
                   else Response True (Some (Body asking_chunks Done))
               | Tts_request v \<Rightarrow> Fetch_rejects),
      JSON_parse = example_parse\<rparr>"

text \<open>An assistant mounted on the bus dashboard, after its session effect; the same with a
  typed message, and with a pasted image on top; and an assistant that went into voice mode,
  whose socket opened and delivered the request for a confirmation, so that the dialog
  shows, before and after the socket has closed.\<close>

definition example_mounted :: chat_state where
  "example_mounted = session_effect ''s1'' (detect_page_effect ''/dashboard/buses'' initial_chat)"

definition example_state :: chat_state where
  "example_state = type_input ''list'' example_mounted"

definition example_image_state :: chat_state where
  "example_image_state = image_loaded ''data:image/png;base64,AAAA'' example_state"

definition example_voice_open :: chat_state where
  "example_voice_open =
     voice_confirmation_effect
       (hook_run example_env [Mount, Socket_opened, Socket_message example_audio_response]
          (enter_voice_mode example_mounted))"

definition example_voice_closed :: chat_state where
  "example_voice_closed = hook_run example_env [Socket_closed] example_voice_open"

text \<open>The client with the typed message and no run; the requests of the session that the
  examples send; and the state of the component when the first run has read the chunk that
  asks for the confirmation.\<close>

definition example_client :: client where
  "example_client = \<lparr>ui = example_state, runs = []\<rparr>"

definition example_request :: chat_body where
  "example_request =
     \<lparr>message = ''list'', session_id = ''s1'', context_page = ''busDashboard'',
      image_base64 = None\<rparr>"

definition yes_request :: chat_body where
  "yes_request =
     \<lparr>message = ''yes'', session_id = ''s1'', context_page = ''busDashboard'',
      image_base64 = None\<rparr>"

definition more_request :: chat_body where
  "more_request =
     \<lparr>message = ''more'', session_id = ''s1'', context_page = ''busDashboard'',
      image_base64 = None\<rparr>"

definition asked :: chat_state where
  "asked =
     (loop_start example_state)
       \<lparr>chatMessages := chatMessages example_state @
          [\<lparr>role = User, content = ''list'', image_opt = None\<rparr>,
           \<lparr>role = Assistant, content = ''Hi'', image_opt = None\<rparr>],
        confirmationState :=
          \<lparr>isVisible = True, alertMessage = JStr ''Sure?'',
           consequenceDetails = JObj [(''message'', JStr ''Sure?'')]\<rparr>\<rparr>"

text \<open>A registry with a high-impact tool that deletes a trip and a normal tool that lists the
  trips, over a persistent state that is the list of the trip names.\<close>

definition example_registry :: "string \<Rightarrow> string list tool_descriptor option" where
  "example_registry tool =
     (if tool = ''delete_trip''
      then Some \<lparr>parameter_schema = [(''trip_name'', True)], impact_level = High,
                 handler = (\<lambda>ents db.
                   case map_of ents ''trip_name'' of
                     Some (JStr name) \<Rightarrow>
                       if name \<in> set db then (Inr (JStr name), remove1 name db)
                       else (Inl ''trip not found'', db)
                   | _ \<Rightarrow> (Inl ''trip not found'', db))\<rparr>
      else if tool = ''list_trips''
      then Some \<lparr>parameter_schema = [], impact_level = Normal,
                 handler = (\<lambda>ents db. (Inr (JArr (map JStr db)), db))\<rparr>
      else None)"

definition example_collaborators :: "string list collaborators" where
  "example_collaborators =
     \<lparr>registry = example_registry,
      selector = (\<lambda>raw ctx history img.
        \<lparr>sel_intent = Some ''delete'', sel_tool = Some ''delete_trip'',
         sel_entities = [(''trip_name'', JStr ''Morning Express'')],
         sel_image_summary = None, sel_needs_clarification = False\<rparr>),
      resolve_consequence = (\<lambda>tool ents db.
        (''This trip has bookings. Delete it?'', JObj [(''tool'', JStr tool)])),
      synthesize = (\<lambda>a. ''Done.'')\<rparr>"

definition example_engine :: "string list engine" where
  "example_engine =
     \<lparr>persistence = [''Morning Express'', ''Evening Run''],
      checkpoints = (\<lambda>sid. None), snapshots = (\<lambda>sid. None), leases = {}\<rparr>"

section \<open>Strings\<close>

lemma dropWhile_all_iff: "(\<forall>x \<in> set (dropWhile P xs). P x) \<longleftrightarrow> (\<forall>x \<in> set xs. P x)"
proof
  assume a: "\<forall>x \<in> set (dropWhile P xs). P x"
  have "dropWhile P xs = []"
  proof (rule ccontr)
    assume n: "dropWhile P xs \<noteq> []"
    then have "\<not> P (hd (dropWhile P xs))" by (rule hd_dropWhile)
    moreover from n have "hd (dropWhile P xs) \<in> set (dropWhile P xs)" by simp
    ultimately show False using a by blast
  qed
  then show "\<forall>x \<in> set xs. P x" by simp
next
  assume "\<forall>x \<in> set xs. P x"
  then show "\<forall>x \<in> set (dropWhile P xs). P x" by (auto dest: set_dropWhileD)
qed

lemma trim_Nil_iff: "trim s = [] \<longleftrightarrow> (\<forall>c \<in> set s. js_whitespace c)"
  by (simp add: trim_def dropWhile_all_iff)

lemma js_includes_iff: "js_includes s needle \<longleftrightarrow> (\<exists>pre post. s = pre @ needle @ post)"
proof (induction s)
  case Nil
  then show ?case by auto
next
  case (Cons c cs)
  show ?case
  proof
    assume "js_includes (c # cs) needle"
    then consider "prefix needle (c # cs)" | "js_includes cs needle" by auto
    then show "\<exists>pre post. c # cs = pre @ needle @ post"
    proof cases
      case 1
      then obtain post where "c # cs = needle @ post" by (auto simp: prefix_def)
      then have "c # cs = [] @ needle @ post" by simp
      then show ?thesis by blast
    next
      case 2
      with Cons.IH obtain pre post where "cs = pre @ needle @ post" by blast
      then have "c # cs = (c # pre) @ needle @ post" by simp
      then show ?thesis by blast
    qed
  next
    assume "\<exists>pre post. c # cs = pre @ needle @ post"
    then obtain pre post where eq: "c # cs = pre @ needle @ post" by blast
    show "js_includes (c # cs) needle"
    proof (cases pre)
      case Nil
      with eq have "prefix needle (c # cs)" by (simp add: prefix_def)
      then show ?thesis by simp
    next
      case (Cons a pre')
      with eq have "cs = pre' @ needle @ post" by simp
      with Cons.IH have "js_includes cs needle" by blast
      then show ?thesis by simp
    qed
  qed
qed

section \<open>The text accumulated by the reading loop\<close>

lemma get_prop_type_content:
  "get_prop data k = Inr t \<Longrightarrow> \<exists>c. get_prop data k' = Inr c"
  by (cases data) auto

lemma stream_events_Nil [simp]: "stream_events env [] = []"
  by (simp add: stream_events_def List.map_filter_simps)

lemma stream_events_append:
  "stream_events env (xs @ ys) = stream_events env xs @ stream_events env ys"
  by (simp add: stream_events_def List.map_filter_def)

lemma tokens_text_append: "tokens_text (xs @ ys) = tokens_text xs @ tokens_text ys"
  by (simp add: tokens_text_def)

lemma fst_process_line:
  "fst (process_line env wc s line) = fst s @ tokens_text (stream_events env [line])"
proof (cases "trim line = []")
  case True
  then show ?thesis
    by (simp add: process_line_def stream_events_def tokens_text_def List.map_filter_simps)
next
  case False
  show ?thesis
  proof (cases "JSON_parse env line")
    case None
    with False show ?thesis
      by (simp add: process_line_def try_line_def stream_events_def tokens_text_def
          List.map_filter_simps)
  next
    case (Some data)
    show ?thesis
    proof (cases "get_prop data ''type''")
      case (Inl e)
      with False Some show ?thesis
        by (simp add: process_line_def try_line_def stream_events_def tokens_text_def
            List.map_filter_simps is_token_def)
    next
      case (Inr t)
      then obtain c where c: "get_prop data ''content'' = Inr c"
        using get_prop_type_content by blast
      obtain p where p: "get_prop data ''payload'' = Inr p"
        using Inr get_prop_type_content by blast
      show ?thesis using False Some Inr c p
        by (auto simp add: process_line_def try_line_def stream_events_def tokens_text_def
            List.map_filter_simps is_token_def content_text_def Let_def split: sum.splits)
    qed
  qed
qed

lemma fst_process_lines:
  "fst (process_lines env wc lines s) = fst s @ tokens_text (stream_events env lines)"
proof (induction lines arbitrary: s)
  case Nil
  then show ?case by (simp add: process_lines_def tokens_text_def)
next
  case (Cons l ls)
  have "fst (process_lines env wc (l # ls) s) = fst (process_lines env wc ls (process_line env wc s l))"
    by (simp add: process_lines_def)
  also have "\<dots> = fst (process_line env wc s l) @ tokens_text (stream_events env ls)"
    by (rule Cons.IH)
  also have "\<dots> = fst s @ tokens_text (stream_events env (l # ls))"
    using stream_events_append [of env "[l]" ls]
    by (simp add: fst_process_line tokens_text_append)
  finally show ?case .
qed

lemma stream_loop_lines:
  "stream_loop env wc chunks s = process_lines env wc (lines_of chunks) s"
  by (induction chunks arbitrary: s) (simp_all add: stream_loop_def process_lines_def lines_of_def)

section \<open>What the reading loop leaves alone\<close>

lemma display_only_refl: "display_only st st"
  by (auto simp: display_only_def intro: exI [of _ "[]"])

lemma display_only_trans:
  assumes "display_only a b" "display_only b c"
  shows "display_only a c"
proof -
  from assms obtain l1 l2 where "trace b = trace a @ map Console l1" "trace c = trace b @ map Console l2"
    by (auto simp: display_only_def)
  then have "trace c = trace a @ map Console (l1 @ l2)" by simp
  then have "\<exists>logs. trace c = trace a @ map Console logs" by blast
  with assms show ?thesis by (simp add: display_only_def)
qed

lemma display_only_emit_Console: "display_only st (emit (Console args) st)"
  by (auto simp: display_only_def emit_def intro: exI [of _ "[args]"])

lemma display_only_messages: "display_only st (st\<lparr>chatMessages := ms\<rparr>)"
  by (auto simp: display_only_def intro: exI [of _ "[]"])

lemma display_only_confirmation: "display_only st (st\<lparr>confirmationState := c\<rparr>)"
  by (auto simp: display_only_def intro: exI [of _ "[]"])

lemma display_only_try_line:
  "try_line env wc s line = Inr s' \<Longrightarrow> display_only (snd s) (snd s')"
  unfolding try_line_def
  by (auto simp: Let_def display_only_refl display_only_messages display_only_confirmation
      display_only_emit_Console split: option.splits sum.splits if_splits)

lemma display_only_process_line: "display_only (snd s) (snd (process_line env wc s line))"
  unfolding process_line_def
  by (auto simp: display_only_refl display_only_emit_Console display_only_try_line
      split: sum.splits)

lemma display_only_process_lines: "display_only (snd s) (snd (process_lines env wc lines s))"
proof (induction lines arbitrary: s)
  case Nil
  show ?case by (simp add: process_lines_def display_only_refl)
next
  case (Cons l ls)
  have "display_only (snd s) (snd (process_line env wc s l))"
    by (rule display_only_process_line)
  moreover have "display_only (snd (process_line env wc s l))
      (snd (process_lines env wc ls (process_line env wc s l)))"
    by (rule Cons.IH)
  ultimately show ?case
    by (simp add: process_lines_def display_only_trans)
qed

section \<open>The assistant entry during the loop\<close>

lemma try_line_messages:
  assumes "try_line env wc s line = Inr s'"
      and "chatMessages (snd s) = ms @ [a]" "role a = Assistant" "content a = fst s"
  shows "chatMessages (snd s') = ms @ [a\<lparr>content := fst s'\<rparr>]"
  using assms unfolding try_line_def
  by (auto simp: Let_def update_last_message_def emit_def split: option.splits sum.splits if_splits)

lemma process_line_messages:
  assumes "chatMessages (snd s) = ms @ [a]" "role a = Assistant" "content a = fst s"
  shows "chatMessages (snd (process_line env wc s line)) =
           ms @ [a\<lparr>content := fst (process_line env wc s line)\<rparr>]"
  using assms try_line_messages [OF _ assms]
  by (auto simp: process_line_def emit_def split: sum.splits)

lemma process_lines_messages:
  assumes "chatMessages (snd s) = ms @ [a]" "role a = Assistant" "content a = fst s"
  shows "chatMessages (snd (process_lines env wc lines s)) =
           ms @ [a\<lparr>content := fst (process_lines env wc lines s)\<rparr>]"
  using assms
proof (induction lines arbitrary: s a)
  case Nil
  then show ?case by (simp add: process_lines_def)
next
  case (Cons l ls)
  let ?s1 = "process_line env wc s l"
  let ?a1 = "a\<lparr>content := fst ?s1\<rparr>"
  have m: "chatMessages (snd ?s1) = ms @ [?a1]"
    using Cons.prems by (rule process_line_messages)
  have "chatMessages (snd (process_lines env wc ls ?s1)) =
          ms @ [?a1\<lparr>content := fst (process_lines env wc ls ?s1)\<rparr>]"
    using m by (rule Cons.IH) (simp_all add: Cons.prems)
  then show ?case by (simp add: process_lines_def)
qed

lemma handleSend_streamed:
  assumes "may_send st"
      and "fetch env (Chat_request (send_request st)) = Response True (Some (Body chunks ending))"
  shows "handleSend env st =
           (case ending of
              Done \<Rightarrow> snd (process_lines env True (lines_of chunks) ([], loop_start st))
            | Read_rejects \<Rightarrow>
                push_message apology
                  (emit (Console [Text ''Error calling Movi:'', Thrown Rejected])
                     (snd (process_lines env True (lines_of chunks) ([], loop_start st)))))
           \<lparr>isProcessing := False\<rparr>"
  using assms
  by (auto simp add: handleSend_def may_send_def send_request_def loop_start_def receive_reply_def
      Let_def stream_loop_lines split: read_end.splits)

lemma chatMessages_loop_start:
  "chatMessages (loop_start st) = (chatMessages st @ [user_entry st]) @ [placeholder]"
  by (simp add: loop_start_def push_message_def emit_def begin_send_def user_entry_def)

lemma chatMessages_process_lines:
  "chatMessages (snd (process_lines env True ls ([], loop_start st))) =
     chatMessages st @ [user_entry st,
       \<lparr>role = Assistant, content = tokens_text (stream_events env ls), image_opt = None\<rparr>]"
proof -
  have "chatMessages (snd (process_lines env True ls ([], loop_start st))) =
          (chatMessages st @ [user_entry st]) @
          [placeholder\<lparr>content := fst (process_lines env True ls ([], loop_start st))\<rparr>]"
    by (rule process_lines_messages) (simp_all add: chatMessages_loop_start placeholder_def)
  then show ?thesis by (simp add: fst_process_lines placeholder_def)
qed

section \<open>Confirmation events\<close>




lemma dialog_after_Nil [simp]: "dialog_after [] d = d"
  by (simp add: dialog_after_def)









section \<open>The outcomes of a turn\<close>

lemma handleSend_rejected:
  assumes "may_send st" "fetch env (Chat_request (send_request st)) = Fetch_rejects"
  shows "handleSend env st =
           (push_message apology
              (emit (Console [Text ''Error calling Movi:'', Thrown Rejected])
                 (emit (Fetch (Chat_request (send_request st))) (begin_send st))))
           \<lparr>isProcessing := False\<rparr>"
  using assms
  by (auto simp add: handleSend_def may_send_def send_request_def receive_reply_def Let_def)

lemma handleSend_not_ok:
  assumes "may_send st" "fetch env (Chat_request (send_request st)) = Response False b"
  shows "handleSend env st =
           (push_message apology
              (emit (Console [Text ''Error calling Movi:'',
                              Thrown (Error ''Failed to get response from Movi'')])
                 (emit (Fetch (Chat_request (send_request st))) (begin_send st))))
           \<lparr>isProcessing := False\<rparr>"
  using assms
  by (auto simp add: handleSend_def may_send_def send_request_def receive_reply_def Let_def)

lemma handleSend_no_reader:
  assumes "may_send st" "fetch env (Chat_request (send_request st)) = Response True None"
  shows "handleSend env st =
           (push_message apology
              (emit (Console [Text ''Error calling Movi:'', Thrown (Error ''No reader available'')])
                 (loop_start st)))
           \<lparr>isProcessing := False\<rparr>"
  using assms
  by (auto simp add: handleSend_def may_send_def send_request_def receive_reply_def Let_def
      loop_start_def)

lemma chatMessages_begin_send: "chatMessages (begin_send st) = chatMessages st @ [user_entry st]"
  by (simp add: begin_send_def push_message_def user_entry_def)

lemma handleSend_messages_cases:
  assumes "may_send st"
  shows "chatMessages (handleSend env st) =
           chatMessages st @ user_entry st #
           (case fetch env (Chat_request (send_request st)) of
              Fetch_rejects \<Rightarrow> [apology]
            | Response ok b \<Rightarrow>
                if \<not> ok then [apology]
                else (case b of
                        None \<Rightarrow> [streamed_entry env [], apology]
                      | Some (Body chunks ending) \<Rightarrow>
                          streamed_entry env chunks #
                          (case ending of Done \<Rightarrow> [] | Read_rejects \<Rightarrow> [apology])))"
proof (cases "fetch env (Chat_request (send_request st))")
  case Fetch_rejects
  then show ?thesis
    by (simp add: handleSend_rejected [OF assms] push_message_def emit_def chatMessages_begin_send)
next
  case (Response ok b)
  show ?thesis
  proof (cases ok)
    case False
    with Response show ?thesis
      by (simp add: handleSend_not_ok [OF assms] push_message_def emit_def chatMessages_begin_send)
  next
    case True
    show ?thesis
    proof (cases b)
      case None
      with Response True show ?thesis
        by (simp add: handleSend_no_reader [OF assms] push_message_def emit_def
            chatMessages_loop_start streamed_entry_def lines_of_def tokens_text_def placeholder_def)
    next
      case (Some bd)
      then obtain chunks ending where bd: "bd = Body chunks ending" by (cases bd) auto
      have f: "fetch env (Chat_request (send_request st)) = Response True (Some (Body chunks ending))"
        using Response True Some bd by simp
      show ?thesis
        using f
        by (cases ending)
           (simp_all add: handleSend_streamed [OF assms f] chatMessages_process_lines push_message_def
              emit_def streamed_entry_def)
    qed
  qed
qed

lemma handleSend_clears_flag: "may_send st \<Longrightarrow> \<not> isProcessing (handleSend env st)"
  by (auto simp add: handleSend_def may_send_def Let_def)

section \<open>Requests sent by the handlers\<close>

lemma map_filter_append: "List.map_filter f (xs @ ys) = List.map_filter f xs @ List.map_filter f ys"
  by (simp add: List.map_filter_def)

lemma map_filter_Console [simp]: "List.map_filter chat_request_of (map Console logs) = []"
  by (induction logs) (simp_all add: List.map_filter_simps)

lemma display_only_chat_requests: "display_only st st' \<Longrightarrow> chat_requests st' = chat_requests st"
  by (auto simp: display_only_def chat_requests_def map_filter_append)

lemma display_only_receive_reply:
  "display_only st (snd (receive_reply env wc result st))"
proof -
  have p: "display_only st (push_message placeholder st)"
    by (simp add: push_message_def display_only_messages)
  have "\<And>chunks. display_only st (snd (stream_loop env wc chunks ([], push_message placeholder st)))"
    using display_only_trans [OF p] display_only_process_lines [of "([], push_message placeholder st)"]
    by (simp add: stream_loop_lines)
  with p show ?thesis
    by (auto simp: receive_reply_def Let_def display_only_refl
        split: fetch_result.splits option.splits body.splits)
qed

lemma handleSend_noop: "isProcessing st \<Longrightarrow> handleSend env st = st"
  by (simp add: handleSend_def)

lemma chat_requests_emit_Fetch:
  "chat_requests (emit (Fetch (Chat_request b)) st) = chat_requests st @ [b]"
  by (simp add: chat_requests_def emit_def map_filter_append List.map_filter_simps)

lemma chat_requests_emit_Console [simp]:
  "chat_requests (emit (Console args) st) = chat_requests st"
  by (simp add: chat_requests_def emit_def map_filter_append List.map_filter_simps)

lemma chat_requests_handleSend:
  assumes "may_send st"
  shows "chat_requests (handleSend env st) = chat_requests st @ [send_request st]"
proof -
  let ?st2 = "emit (Fetch (Chat_request (send_request st))) (begin_send st)"
  let ?r = "receive_reply env True (fetch env (Chat_request (send_request st))) ?st2"
  have "chat_requests (snd ?r) = chat_requests ?st2"
    by (rule display_only_chat_requests) (rule display_only_receive_reply)
  also have "\<dots> = chat_requests st @ [send_request st]"
    by (simp add: chat_requests_emit_Fetch) (simp add: chat_requests_def begin_send_def push_message_def)
  finally have r: "chat_requests (snd ?r) = chat_requests st @ [send_request st]" .
  have "chat_requests (handleSend env st) = chat_requests (snd ?r)"
    using assms
    by (auto simp add: handleSend_def may_send_def send_request_def Let_def chat_requests_def
        push_message_def emit_def map_filter_append List.map_filter_simps split: option.splits)
  with r show ?thesis by simp
qed

lemma stream_loop_messages_nonempty:
  "chatMessages (snd (process_lines env wc lines ([], push_message placeholder st))) \<noteq> []"
proof -
  have "chatMessages (snd (process_lines env wc lines ([], push_message placeholder st))) =
          chatMessages st @
          [placeholder\<lparr>content := fst (process_lines env wc lines ([], push_message placeholder st))\<rparr>]"
    by (rule process_lines_messages) (simp_all add: push_message_def placeholder_def)
  then show ?thesis by simp
qed

section \<open>The confirmation handlers\<close>

lemma chat_requests_cong_trace: "trace st' = trace st \<Longrightarrow> chat_requests st' = chat_requests st"
  by (simp add: chat_requests_def)

lemma network_cong_trace: "trace st' = trace st \<Longrightarrow> network st' = network st"
  by (simp add: network_def)

lemma chat_requests_confirm_reply:
  "chat_requests (snd (confirm_reply env result st)) = chat_requests st"
  by (auto simp: confirm_reply_def Let_def chat_requests_def emit_def set_processingActive_def
      map_filter_append List.map_filter_simps split: sum.splits)

lemma chat_requests_onError [simp]: "chat_requests (onError e st) = chat_requests st"
  by (simp add: onError_def push_message_def chat_requests_def emit_def map_filter_append
      List.map_filter_simps)

lemma chat_requests_set_processingActive [simp]:
  "chat_requests (set_processingActive b st) = chat_requests st"
  by (simp add: set_processingActive_def chat_requests_def)

lemma sendConfirmation_open:
  assumes "socket_open st"
  shows "chat_requests (sendConfirmation env b st) =
           chat_requests st @
           [\<lparr>message = (if b then ''yes'' else ''no''), session_id = chatSessionId st,
             context_page = currentContextPage st, image_base64 = None\<rparr>]"
proof -
  from assms obtain ws where ws: "websocketRef (voice st) = Some ws" "readyState ws = OPEN"
    by (auto simp: socket_open_def split: option.splits)
  let ?m = "if b then ''yes'' else ''no''"
  let ?st1 = "st\<lparr>voice := (voice st)
                  \<lparr>voiceMessages := voiceMessages (voice st) @
                     [\<lparr>type_v = User, text_v = JStr ?m, audio = None\<rparr>],
                   needsConfirmation := False,
                   consequenceDetails_voice := JNull\<rparr>\<rparr>"
  let ?body = "\<lparr>message = ?m, session_id = chatSessionId st,
             context_page = currentContextPage st, image_base64 = None\<rparr>"
  let ?st2 = "emit (Fetch (Chat_request ?body)) (set_processingActive True ?st1)"
  let ?r = "confirm_reply env (fetch env (Chat_request ?body)) ?st2"
  have c2: "chat_requests ?st2 = chat_requests st @ [?body]"
    by (simp add: chat_requests_emit_Fetch) (simp add: chat_requests_def)
  have eq: "sendConfirmation env b st =
      (case fst ?r of None \<Rightarrow> snd ?r
       | Some e \<Rightarrow> onError ''Failed to send confirmation''
                        (set_processingActive False
                           (emit (Console [Text ''Error sending confirmation:'', Thrown e]) (snd ?r))))"
    using ws by (simp add: sendConfirmation_def Let_def)
  have "chat_requests (sendConfirmation env b st) = chat_requests (snd ?r)"
    unfolding eq by (simp split: option.splits)
  also have "\<dots> = chat_requests ?st2" by (rule chat_requests_confirm_reply)
  finally show ?thesis using c2 by simp
qed

lemma sendConfirmation_not_open:
  assumes "\<not> socket_open st"
  shows "trace (sendConfirmation env b st) = trace st"
  using assms by (auto simp: sendConfirmation_def socket_open_def Let_def split: option.splits)

lemma handleConfirmAction_text:
  assumes "\<not> isVoiceActive st"
  shows "chat_requests (handleConfirmAction env b st) =
           chat_requests st @
           [\<lparr>message = (if b then ''yes'' else ''no''), session_id = chatSessionId st,
             context_page = currentContextPage st, image_base64 = None\<rparr>]"
proof -
  let ?m = "if b then ''yes'' else ''no''"
  let ?st1 = "(push_message \<lparr>role = User, content = ?m, image_opt = None\<rparr>
                 (st\<lparr>confirmationState := hidden_confirmation\<rparr>))\<lparr>isProcessing := True\<rparr>"
  let ?body = "\<lparr>message = ?m, session_id = chatSessionId st,
             context_page = currentContextPage st, image_base64 = None\<rparr>"
  let ?st2 = "emit (Fetch (Chat_request ?body)) ?st1"
  let ?r = "receive_reply env False (fetch env (Chat_request ?body)) ?st2"
  have c2: "chat_requests ?st2 = chat_requests st @ [?body]"
    by (simp add: chat_requests_emit_Fetch) (simp add: chat_requests_def push_message_def)
  have r: "chat_requests (snd ?r) = chat_requests ?st2"
    by (rule display_only_chat_requests) (rule display_only_receive_reply)
  have "chat_requests (handleConfirmAction env b st) = chat_requests (snd ?r)"
    using assms
    by (auto simp add: handleConfirmAction_def Let_def push_message_def chat_requests_def emit_def
        map_filter_append List.map_filter_simps split: option.splits)
  with r c2 show ?thesis by simp
qed

lemma handleSend_keeps_identifiers:
  "chatSessionId (handleSend env st) = chatSessionId st \<and>
   currentContextPage (handleSend env st) = currentContextPage st \<and>
   isVoiceActive (handleSend env st) = isVoiceActive st \<and>
   voice (handleSend env st) = voice st"
proof (cases "may_send st")
  case False
  then show ?thesis by (auto simp: handleSend_def may_send_def)
next
  case True
  let ?st2 = "emit (Fetch (Chat_request (send_request st))) (begin_send st)"
  let ?r = "receive_reply env True (fetch env (Chat_request (send_request st))) ?st2"
  have d: "display_only ?st2 (snd ?r)" by (rule display_only_receive_reply)
  have "handleSend env st =
      (case fst ?r of None \<Rightarrow> snd ?r
       | Some e \<Rightarrow> push_message apology (emit (Console [Text ''Error calling Movi:'', Thrown e]) (snd ?r)))
      \<lparr>isProcessing := False\<rparr>"
    unfolding handleSend_def send_request_def Let_def using True by (auto simp add: may_send_def)
  then show ?thesis using d
    by (auto simp: display_only_def push_message_def emit_def begin_send_def split: option.splits)
qed

text \<open>
  Claim C2, as amended. In text mode, and in voice mode when the voice socket is open, a
  confirmation decision sends exactly one request to the chat entry point, whose message is
  \<^verbatim>\<open>"yes"\<close> for an approval and \<^verbatim>\<open>"no"\<close> for a rejection and whose session identifier and
  page are those of the component; these are the ones that the request of the suspended turn
  carried, since \<^verbatim>\<open>handleSend\<close> leaves them unchanged. In voice mode with a socket that is
  not open, nothing is sent.
\<close>

theorem confirm_resume_request:
  "(\<not> isVoiceActive st \<or> socket_open st \<longrightarrow>
      chat_requests (handleConfirmAction env b st) =
        chat_requests st @
        [\<lparr>message = (if b then ''yes'' else ''no''), session_id = chatSessionId st,
          context_page = currentContextPage st, image_base64 = None\<rparr>]) \<and>
   (isVoiceActive st \<and> \<not> socket_open st \<longrightarrow>
      network (handleConfirmAction env b st) = network st) \<and>
   (may_send st0 \<longrightarrow>
      chat_requests (handleSend env0 st0) = chat_requests st0 @ [send_request st0] \<and>
      session_id (send_request st0) = chatSessionId (handleSend env0 st0) \<and>
      context_page (send_request st0) = currentContextPage (handleSend env0 st0))"
proof (intro conjI impI)
  assume a: "\<not> isVoiceActive st \<or> socket_open st"
  show "chat_requests (handleConfirmAction env b st) =
        chat_requests st @
        [\<lparr>message = (if b then ''yes'' else ''no''), session_id = chatSessionId st,
          context_page = currentContextPage st, image_base64 = None\<rparr>]"
  proof (cases "isVoiceActive st")
    case False
    then show ?thesis by (rule handleConfirmAction_text)
  next
    case True
    with a have "socket_open (st\<lparr>confirmationState := hidden_confirmation\<rparr>)"
      by (simp add: socket_open_def)
    from sendConfirmation_open [OF this, of env b] True show ?thesis
      by (simp add: handleConfirmAction_def Let_def chat_requests_def)
  qed
next
  assume a: "isVoiceActive st \<and> \<not> socket_open st"
  then have "\<not> socket_open (st\<lparr>confirmationState := hidden_confirmation\<rparr>)"
    by (simp add: socket_open_def)
  from sendConfirmation_not_open [OF this, of env b] a
  show "network (handleConfirmAction env b st) = network st"
    by (simp add: handleConfirmAction_def Let_def network_def)
next
  assume "may_send st0"
  then show "chat_requests (handleSend env0 st0) = chat_requests st0 @ [send_request st0]"
    by (rule chat_requests_handleSend)
next
  show "session_id (send_request st0) = chatSessionId (handleSend env0 st0)"
    by (simp add: handleSend_keeps_identifiers)
       (simp add: send_request_def request_body_def begin_send_def push_message_def)
next
  show "context_page (send_request st0) = currentContextPage (handleSend env0 st0)"
    by (simp add: handleSend_keeps_identifiers)
       (simp add: send_request_def request_body_def begin_send_def push_message_def)
qed

text \<open>
  Claim C6. The detected page is a total function of the path: \<^verbatim>\<open>"busDashboard"\<close> if the path
  contains \<^verbatim>\<open>"/buses"\<close>, else \<^verbatim>\<open>"routes"\<close> if it contains \<^verbatim>\<open>"/routes"\<close>, else
  \<^verbatim>\<open>"stops_paths"\<close> for \<^verbatim>\<open>"/stops-paths"\<close>, else \<^verbatim>\<open>"vehicles"\<close> for \<^verbatim>\<open>"/vehicles"\<close>, else
  \<^verbatim>\<open>"drivers"\<close> for \<^verbatim>\<open>"/drivers"\<close>, and \<^verbatim>\<open>"unknown"\<close> otherwise; it is one of these six
  values; and after the detection effect has run for a path, the request that \<^verbatim>\<open>handleSend\<close>
  sends carries the page detected for that path.
\<close>

theorem context_page_of_pathname:
  "detectedPage path =
     (if (\<exists>pre post. path = pre @ ''/buses'' @ post) then ''busDashboard''
      else if (\<exists>pre post. path = pre @ ''/routes'' @ post) then ''routes''
      else if (\<exists>pre post. path = pre @ ''/stops-paths'' @ post) then ''stops_paths''
      else if (\<exists>pre post. path = pre @ ''/vehicles'' @ post) then ''vehicles''
      else if (\<exists>pre post. path = pre @ ''/drivers'' @ post) then ''drivers''
      else ''unknown'') \<and>
   detectedPage path \<in>
     {''busDashboard'', ''routes'', ''stops_paths'', ''vehicles'', ''drivers'', ''unknown''} \<and>
   (may_send (detect_page_effect path st) \<longrightarrow>
      chat_requests (handleSend env (detect_page_effect path st)) =
        chat_requests st @ [send_request (detect_page_effect path st)] \<and>
      context_page (send_request (detect_page_effect path st)) = detectedPage path)"
proof (intro conjI impI)
  show "detectedPage path =
     (if (\<exists>pre post. path = pre @ ''/buses'' @ post) then ''busDashboard''
      else if (\<exists>pre post. path = pre @ ''/routes'' @ post) then ''routes''
      else if (\<exists>pre post. path = pre @ ''/stops-paths'' @ post) then ''stops_paths''
      else if (\<exists>pre post. path = pre @ ''/vehicles'' @ post) then ''vehicles''
      else if (\<exists>pre post. path = pre @ ''/drivers'' @ post) then ''drivers''
      else ''unknown'')"
    unfolding detectedPage_def js_includes_iff ..
  show "detectedPage path \<in>
     {''busDashboard'', ''routes'', ''stops_paths'', ''vehicles'', ''drivers'', ''unknown''}"
    by (simp add: detectedPage_def)
next
  assume "may_send (detect_page_effect path st)"
  then have "chat_requests (handleSend env (detect_page_effect path st)) =
        chat_requests (detect_page_effect path st) @ [send_request (detect_page_effect path st)]"
    by (rule chat_requests_handleSend)
  then show "chat_requests (handleSend env (detect_page_effect path st)) =
        chat_requests st @ [send_request (detect_page_effect path st)]"
    by (simp add: chat_requests_def detect_page_effect_def)
next
  show "context_page (send_request (detect_page_effect path st)) = detectedPage path"
    by (simp add: send_request_def request_body_def begin_send_def push_message_def
        detect_page_effect_def)
qed

section \<open>The reply to either text handler\<close>

lemma receive_reply_thrown:
  "fst (receive_reply env wc result st) =
     (case result of
        Fetch_rejects \<Rightarrow> Some Rejected
      | Response ok b \<Rightarrow>
          if \<not> ok then Some (Error ''Failed to get response from Movi'')
          else (case b of
                  None \<Rightarrow> Some (Error ''No reader available'')
                | Some (Body chunks ending) \<Rightarrow>
                    (case ending of Done \<Rightarrow> None | Read_rejects \<Rightarrow> Some Rejected)))"
  by (simp add: receive_reply_def Let_def split: fetch_result.splits option.splits body.splits)

lemma receive_reply_messages:
  "chatMessages (snd (receive_reply env wc result st)) =
     chatMessages st @
     (case result of
        Fetch_rejects \<Rightarrow> []
      | Response ok b \<Rightarrow>
          if \<not> ok then []
          else (case b of
                  None \<Rightarrow> [streamed_entry env []]
                | Some (Body chunks ending) \<Rightarrow> [streamed_entry env chunks]))"
proof -
  have loop: "\<And>chunks. chatMessages (snd (stream_loop env wc chunks ([], push_message placeholder st))) =
      chatMessages st @ [streamed_entry env chunks]"
  proof -
    fix chunks
    let ?s = "process_lines env wc (lines_of chunks) ([], push_message placeholder st)"
    have "chatMessages (snd ?s) = chatMessages st @ [placeholder\<lparr>content := fst ?s\<rparr>]"
      by (rule process_lines_messages) (simp_all add: push_message_def placeholder_def)
    then show "chatMessages (snd (stream_loop env wc chunks ([], push_message placeholder st))) =
      chatMessages st @ [streamed_entry env chunks]"
      by (simp add: stream_loop_lines fst_process_lines streamed_entry_def placeholder_def)
  qed
  show ?thesis
  proof (cases result)
    case Fetch_rejects
    then show ?thesis by (simp add: receive_reply_def)
  next
    case (Response ok b)
    show ?thesis
    proof (cases ok)
      case False
      with Response show ?thesis by (simp add: receive_reply_def)
    next
      case True
      show ?thesis
      proof (cases b)
        case None
        with Response True show ?thesis
          by (simp add: receive_reply_def Let_def push_message_def streamed_entry_def lines_of_def
              tokens_text_def placeholder_def)
      next
        case (Some bd)
        obtain chunks ending where "bd = Body chunks ending" by (cases bd) auto
        with Response True Some show ?thesis
          by (simp add: receive_reply_def Let_def loop)
      qed
    qed
  qed
qed

lemma handleConfirmAction_messages_cases:
  assumes "\<not> isVoiceActive st"
  shows "chatMessages (handleConfirmAction env b st) =
           chatMessages st @ confirm_entry b #
           (case fetch env (Chat_request (confirm_request b st)) of
              Fetch_rejects \<Rightarrow> [confirmation_apology]
            | Response ok bd \<Rightarrow>
                if \<not> ok then [confirmation_apology]
                else (case bd of
                        None \<Rightarrow> [streamed_entry env [], confirmation_apology]
                      | Some (Body chunks ending) \<Rightarrow>
                          streamed_entry env chunks #
                          (case ending of Done \<Rightarrow> [] | Read_rejects \<Rightarrow> [confirmation_apology])))"
  using assms
  by (auto simp add: handleConfirmAction_def Let_def confirm_request_def confirm_entry_def
      receive_reply_thrown receive_reply_messages push_message_def emit_def
      split: option.splits fetch_result.splits body.splits read_end.splits if_splits)

lemma handleConfirmAction_clears_flag:
  "\<not> isVoiceActive st \<Longrightarrow> \<not> isProcessing (handleConfirmAction env b st)"
  by (simp add: handleConfirmAction_def Let_def split: option.splits)

text \<open>
  Claim C5. A turn of \<^verbatim>\<open>handleSend\<close> always ends with the processing flag cleared. What it
  appends after the user's entry is fixed by the answer to the request: the apology alone
  when \<^verbatim>\<open>fetch\<close> rejects or the response is not ok; the streamed text, followed by the
  apology when there is no reader or the reading rejects. So every appended entry is streamed
  text or the fixed apology, and the value thrown goes to the console only. The same holds
  for \<^verbatim>\<open>handleConfirmAction\<close> in text mode, with its own fixed apology. A stream event of
  type \<^verbatim>\<open>"error"\<close> is logged and changes neither the messages nor the dialog.
\<close>

theorem send_failure_outcome:
  "(may_send st \<longrightarrow>
      \<not> isProcessing (handleSend env st) \<and>
      chatMessages (handleSend env st) =
        chatMessages st @ user_entry st #
        (case fetch env (Chat_request (send_request st)) of
           Fetch_rejects \<Rightarrow> [apology]
         | Response ok bd \<Rightarrow>
             if \<not> ok then [apology]
             else (case bd of
                     None \<Rightarrow> [streamed_entry env [], apology]
                   | Some (Body chunks ending) \<Rightarrow>
                       streamed_entry env chunks #
                       (case ending of Done \<Rightarrow> [] | Read_rejects \<Rightarrow> [apology])))) \<and>
   (\<not> isVoiceActive st \<longrightarrow>
      \<not> isProcessing (handleConfirmAction env b st) \<and>
      chatMessages (handleConfirmAction env b st) =
        chatMessages st @ confirm_entry b #
        (case fetch env (Chat_request (confirm_request b st)) of
           Fetch_rejects \<Rightarrow> [confirmation_apology]
         | Response ok bd \<Rightarrow>
             if \<not> ok then [confirmation_apology]
             else (case bd of
                     None \<Rightarrow> [streamed_entry env [], confirmation_apology]
                   | Some (Body chunks ending) \<Rightarrow>
                       streamed_entry env chunks #
                       (case ending of Done \<Rightarrow> [] | Read_rejects \<Rightarrow> [confirmation_apology])))) \<and>
   (trim line \<noteq> [] \<and> JSON_parse env line = Some data \<and>
      get_prop data ''type'' = Inr (JStr ''error'') \<longrightarrow>
      (\<exists>c. get_prop data ''content'' = Inr c \<and>
           process_line env wc (acc, st') line =
             (acc, emit (Console [Text ''Stream error:'', Val c]) st')) \<and>
      chatMessages (snd (process_line env wc (acc, st') line)) = chatMessages st' \<and>
      confirmationState (snd (process_line env wc (acc, st') line)) = confirmationState st')"
proof (intro conjI impI)
  assume "may_send st"
  then show "\<not> isProcessing (handleSend env st)" by (rule handleSend_clears_flag)
next
  assume "may_send st"
  then show "chatMessages (handleSend env st) =
        chatMessages st @ user_entry st #
        (case fetch env (Chat_request (send_request st)) of
           Fetch_rejects \<Rightarrow> [apology]
         | Response ok bd \<Rightarrow>
             if \<not> ok then [apology]
             else (case bd of
                     None \<Rightarrow> [streamed_entry env [], apology]
                   | Some (Body chunks ending) \<Rightarrow>
                       streamed_entry env chunks #
                       (case ending of Done \<Rightarrow> [] | Read_rejects \<Rightarrow> [apology])))"
    by (rule handleSend_messages_cases)
next
  assume "\<not> isVoiceActive st"
  then show "\<not> isProcessing (handleConfirmAction env b st)"
    by (rule handleConfirmAction_clears_flag)
next
  assume "\<not> isVoiceActive st"
  then show "chatMessages (handleConfirmAction env b st) =
        chatMessages st @ confirm_entry b #
        (case fetch env (Chat_request (confirm_request b st)) of
           Fetch_rejects \<Rightarrow> [confirmation_apology]
         | Response ok bd \<Rightarrow>
             if \<not> ok then [confirmation_apology]
             else (case bd of
                     None \<Rightarrow> [streamed_entry env [], confirmation_apology]
                   | Some (Body chunks ending) \<Rightarrow>
                       streamed_entry env chunks #
                       (case ending of Done \<Rightarrow> [] | Read_rejects \<Rightarrow> [confirmation_apology])))"
    by (rule handleConfirmAction_messages_cases)
next
  assume a: "trim line \<noteq> [] \<and> JSON_parse env line = Some data \<and>
      get_prop data ''type'' = Inr (JStr ''error'')"
  then obtain c where c: "get_prop data ''content'' = Inr c"
    using get_prop_type_content by blast
  have step: "process_line env wc (acc, st') line =
              (acc, emit (Console [Text ''Stream error:'', Val c]) st')"
    using a c by (simp add: process_line_def try_line_def)
  with c show "\<exists>c. get_prop data ''content'' = Inr c \<and>
           process_line env wc (acc, st') line =
             (acc, emit (Console [Text ''Stream error:'', Val c]) st')" by blast
  show "chatMessages (snd (process_line env wc (acc, st') line)) = chatMessages st'"
    by (simp add: step emit_def)
  show "confirmationState (snd (process_line env wc (acc, st') line)) = confirmationState st'"
    by (simp add: step emit_def)
qed

section \<open>The handlers one stretch at a time\<close>

lemma client_run_Cons: "client_run env (e # es) c = client_run env es (client_step env c e)"
  by (simp add: client_run_def)

lemma client_run_append: "client_run env (xs @ ys) c = client_run env ys (client_run env xs c)"
  by (simp add: client_run_def)

lemma settled_idle:
  "client_run env (replicate n (Settled 0)) \<lparr>ui = st, runs = []\<rparr> = \<lparr>ui = st, runs = []\<rparr>"
  by (induction n) (simp_all add: client_run_def)


lemma settled_reading:
  "client_run env (replicate (length chunks) (Settled 0))
       \<lparr>ui = st, runs = [Awaiting_read wc acc chunks ending]\<rparr> =
     \<lparr>ui = snd (stream_loop env wc chunks (acc, st)),
      runs = [Awaiting_read wc (fst (stream_loop env wc chunks (acc, st))) [] ending]\<rparr>"
proof (induction chunks arbitrary: acc st)
  case Nil
  show ?case by (simp add: client_run_def stream_loop_def)
next
  case (Cons chunk chunks)
  let ?s = "process_lines env wc (js_split chunk [CHR 0x0A]) (acc, st)"
  have "client_run env (replicate (length (chunk # chunks)) (Settled 0))
          \<lparr>ui = st, runs = [Awaiting_read wc acc (chunk # chunks) ending]\<rparr> =
        client_run env (replicate (length chunks) (Settled 0))
          \<lparr>ui = snd ?s, runs = [Awaiting_read wc (fst ?s) chunks ending]\<rparr>"
    by (simp add: client_run_Cons Let_def)
  also have "\<dots> = \<lparr>ui = snd (stream_loop env wc chunks (fst ?s, snd ?s)),
      runs = [Awaiting_read wc (fst (stream_loop env wc chunks (fst ?s, snd ?s))) [] ending]\<rparr>"
    by (rule Cons.IH)
  also have "stream_loop env wc chunks (fst ?s, snd ?s) = stream_loop env wc (chunk # chunks) (acc, st)"
    by (simp add: stream_loop_def)
  finally show ?case .
qed

lemma settled_end:
  "client_step env \<lparr>ui = st, runs = [Awaiting_read wc acc [] ending]\<rparr> (Settled 0) =
     \<lparr>ui = end_of_run wc (case ending of Done \<Rightarrow> None | Read_rejects \<Rightarrow> Some Rejected) st,
      runs = []\<rparr>"
  by simp

lemma settled_fetch:
  "client_run env (replicate (length (body_chunks (fetch env r)) + 2) (Settled 0))
       \<lparr>ui = st, runs = [Awaiting_fetch wc r]\<rparr> =
     \<lparr>ui = end_of_run wc (fst (receive_reply env wc (fetch env r) st))
             (snd (receive_reply env wc (fetch env r) st)),
      runs = []\<rparr>"
proof (cases "fetch env r")
  case Fetch_rejects
  then show ?thesis
    by (simp add: body_chunks_def client_run_def receive_reply_def)
next
  case (Response ok b)
  show ?thesis
  proof (cases "ok \<and> b \<noteq> None")
    case False
    with Response show ?thesis
      by (cases b) (auto simp add: body_chunks_def client_run_def receive_reply_def Let_def
          split: body.splits)
  next
    case True
    then obtain chunks ending where b: "b = Some (Body chunks ending)" and ok: ok
      by (cases b) (auto intro: body.exhaust)
    have n: "replicate (length (body_chunks (fetch env r)) + 2) (Settled 0) =
               Settled 0 # replicate (length chunks) (Settled 0) @ [Settled 0]"
      using Response b ok by (simp add: body_chunks_def replicate_append_same)
    show ?thesis
      unfolding n client_run_Cons client_run_append
      using Response b ok
      by (simp add: settled_reading) (simp add: client_run_def receive_reply_def Let_def)
  qed
qed

lemma handleSend_end_of_run:
  "may_send st \<Longrightarrow>
     handleSend env st =
       end_of_run True
         (fst (receive_reply env True (fetch env (Chat_request (send_request st)))
                 (emit (Fetch (Chat_request (send_request st))) (begin_send st))))
         (snd (receive_reply env True (fetch env (Chat_request (send_request st)))
                 (emit (Fetch (Chat_request (send_request st))) (begin_send st))))"
  by (auto simp add: handleSend_def may_send_def send_request_def end_of_run_def Let_def
      split: option.splits)

lemma start_send_idle: "\<not> may_send st \<Longrightarrow> start_send st = (None, st)"
  by (auto simp add: start_send_def may_send_def)

lemma start_send_run:
  "may_send st \<Longrightarrow>
     start_send st =
       (Some (Awaiting_fetch True (Chat_request (send_request st))),
        emit (Fetch (Chat_request (send_request st))) (begin_send st))"
  by (auto simp add: start_send_def may_send_def send_request_def Let_def)

lemma handleSend_idle: "\<not> may_send st \<Longrightarrow> handleSend env st = st"
  by (auto simp add: handleSend_def may_send_def)

lemma send_clicked_while_processing:
  "isProcessing (ui c) \<Longrightarrow> client_step env c Send_clicked = c"
  by (simp add: add_run_def start_send_def)

lemma handleSend_stepwise:
  assumes "length (body_chunks (fetch env (Chat_request (send_request st)))) + 2 \<le> n"
  shows "client_run env (Send_clicked # replicate n (Settled 0)) \<lparr>ui = st, runs = []\<rparr> =
           \<lparr>ui = handleSend env st, runs = []\<rparr>"
proof (cases "may_send st")
  case False
  then show ?thesis
    by (simp add: client_run_Cons add_run_def start_send_idle handleSend_idle settled_idle)
next
  case True
  let ?k = "length (body_chunks (fetch env (Chat_request (send_request st)))) + 2"
  from assms have n: "replicate n (Settled 0) = replicate ?k (Settled 0) @ replicate (n - ?k) (Settled 0)"
    by (metis le_add_diff_inverse replicate_add)
  have a: "client_step env \<lparr>ui = st, runs = []\<rparr> Send_clicked =
      \<lparr>ui = emit (Fetch (Chat_request (send_request st))) (begin_send st),
       runs = [Awaiting_fetch True (Chat_request (send_request st))]\<rparr>"
    using True by (simp add: add_run_def start_send_run)
  have b: "client_run env (replicate ?k (Settled 0))
      \<lparr>ui = emit (Fetch (Chat_request (send_request st))) (begin_send st),
       runs = [Awaiting_fetch True (Chat_request (send_request st))]\<rparr> =
      \<lparr>ui = handleSend env st, runs = []\<rparr>"
    by (simp only: settled_fetch handleSend_end_of_run [OF True])
  show ?thesis
    unfolding client_run_Cons n client_run_append a b by (rule settled_idle)
qed

lemma handleConfirmAction_end_of_run:
  "\<not> isVoiceActive st \<Longrightarrow>
     handleConfirmAction env b st =
       end_of_run False
         (fst (receive_reply env False (fetch env (Chat_request (confirm_request b st)))
                 (snd (start_confirm env b st))))
         (snd (receive_reply env False (fetch env (Chat_request (confirm_request b st)))
                 (snd (start_confirm env b st))))"
  by (auto simp add: handleConfirmAction_def start_confirm_def confirm_request_def end_of_run_def
      push_message_def Let_def split: option.splits)

lemma start_confirm_run:
  "\<not> isVoiceActive st \<Longrightarrow>
     fst (start_confirm env b st) = Some (Awaiting_fetch False (Chat_request (confirm_request b st)))"
  by (simp add: start_confirm_def confirm_request_def push_message_def Let_def)

lemma handleConfirmAction_stepwise:
  assumes "\<not> isVoiceActive st"
      and "length (body_chunks (fetch env (Chat_request (confirm_request b st)))) + 2 \<le> n"
  shows "client_run env (Confirm_clicked b # replicate n (Settled 0)) \<lparr>ui = st, runs = []\<rparr> =
           \<lparr>ui = handleConfirmAction env b st, runs = []\<rparr>"
proof -
  let ?k = "length (body_chunks (fetch env (Chat_request (confirm_request b st)))) + 2"
  from assms(2) have n: "replicate n (Settled 0) = replicate ?k (Settled 0) @ replicate (n - ?k) (Settled 0)"
    by (metis le_add_diff_inverse replicate_add)
  have a: "client_step env \<lparr>ui = st, runs = []\<rparr> (Confirm_clicked b) =
          \<lparr>ui = snd (start_confirm env b st),
           runs = [Awaiting_fetch False (Chat_request (confirm_request b st))]\<rparr>"
    using start_confirm_run [OF assms(1), of env b] by (simp add: add_run_def)
  have c: "client_run env (replicate ?k (Settled 0))
      \<lparr>ui = snd (start_confirm env b st),
       runs = [Awaiting_fetch False (Chat_request (confirm_request b st))]\<rparr> =
      \<lparr>ui = handleConfirmAction env b st, runs = []\<rparr>"
    by (simp only: settled_fetch handleConfirmAction_end_of_run [OF assms(1)])
  show ?thesis
    unfolding client_run_Cons n client_run_append a c by (rule settled_idle)
qed

section \<open>The dialog that a confirmation event opens\<close>




section \<open>Images\<close>

lemma split_from_nonempty: "split_from sep acc s \<noteq> []"
  by (induction sep acc s rule: split_from.induct) auto

lemma split_from_two:
  "js_includes s sep \<Longrightarrow> sep \<noteq> [] \<Longrightarrow> \<exists>a b r. split_from sep acc s = a # b # r"
proof (induction s arbitrary: acc)
  case Nil
  then show ?case by simp
next
  case (Cons c cs)
  show ?case
  proof (cases "prefix sep (c # cs)")
    case True
    obtain b r where "split_from sep [] (drop (length sep) (c # cs)) = b # r"
      using split_from_nonempty by (meson neq_Nil_conv)
    with True Cons.prems(2) show ?thesis by simp
  next
    case False
    with Cons.prems have "js_includes cs sep" by simp
    from Cons.IH [OF this Cons.prems(2)] obtain a b r
      where "split_from sep (c # acc) cs = a # b # r" by blast
    with False show ?thesis by simp
  qed
qed

lemma image_base64_request_body:
  assumes "img \<noteq> []"
  shows "image_base64 (request_body m (Some img) st) =
           Some (if js_includes img ''base64,'' then js_split img ''base64,'' ! 1 else img)"
proof (cases "js_includes img ''base64,''")
  case False
  with assms show ?thesis by (simp add: request_body_def)
next
  case True
  then obtain a b r where "js_split img ''base64,'' = a # b # r"
    unfolding js_split_def using split_from_two by blast
  with True assms show ?thesis by (simp add: request_body_def)
qed

lemma handleSend_unfold:
  assumes "may_send st"
  shows "handleSend env st =
      (case fst (receive_reply env True (fetch env (Chat_request (send_request st)))
                  (emit (Fetch (Chat_request (send_request st))) (begin_send st))) of
         None \<Rightarrow> snd (receive_reply env True (fetch env (Chat_request (send_request st)))
                  (emit (Fetch (Chat_request (send_request st))) (begin_send st)))
       | Some e \<Rightarrow> push_message apology (emit (Console [Text ''Error calling Movi:'', Thrown e])
               (snd (receive_reply env True (fetch env (Chat_request (send_request st)))
                  (emit (Fetch (Chat_request (send_request st))) (begin_send st))))))
      \<lparr>isProcessing := False\<rparr>"
  unfolding handleSend_def send_request_def Let_def using assms by (auto simp add: may_send_def)

lemma handleSend_clears_image:
  assumes "may_send st"
  shows "uploadedImage (handleSend env st) = None \<and> imagePreviewUrl (handleSend env st) = None"
proof -
  let ?st2 = "emit (Fetch (Chat_request (send_request st))) (begin_send st)"
  let ?r = "receive_reply env True (fetch env (Chat_request (send_request st))) ?st2"
  have d: "display_only ?st2 (snd ?r)" by (rule display_only_receive_reply)
  show ?thesis using d
    by (auto simp: handleSend_unfold [OF assms] display_only_def push_message_def emit_def
        begin_send_def split: option.splits)
qed

text \<open>
  Claim C8, as amended. A turn that carries an image sends its base64 data with the request
  of that turn and clears the pending image and its preview, so that no later request
  carries it. The user's entry in the list of chat messages keeps the image (the chat shows
  it); no entry appended after it holds an image.
\<close>

theorem image_cleared_from_pending_state:
  assumes "may_send st" "uploadedImage st = Some img" "img \<noteq> []"
  shows "image_base64 (send_request st) =
           Some (if js_includes img ''base64,'' then js_split img ''base64,'' ! 1 else img) \<and>
         uploadedImage (handleSend env st) = None \<and>
         imagePreviewUrl (handleSend env st) = None \<and>
         (\<exists>shown. chatMessages (handleSend env st) =
            chatMessages st @
            \<lparr>role = User, content = userMessage_of st, image_opt = Some img\<rparr> # shown \<and>
            (\<forall>m \<in> set shown. image_opt m = None)) \<and>
         (\<forall>t. image_base64 (send_request ((handleSend env st)\<lparr>userInput := t\<rparr>)) = None)"
proof (intro conjI allI)
  show "image_base64 (send_request st) =
           Some (if js_includes img ''base64,'' then js_split img ''base64,'' ! 1 else img)"
    using assms(2,3) by (simp add: send_request_def image_base64_request_body)
  show "uploadedImage (handleSend env st) = None" "imagePreviewUrl (handleSend env st) = None"
    using handleSend_clears_image [OF assms(1)] by simp_all
  let ?shown = "(case fetch env (Chat_request (send_request st)) of
              Fetch_rejects \<Rightarrow> [apology]
            | Response ok b \<Rightarrow>
                if \<not> ok then [apology]
                else (case b of
                        None \<Rightarrow> [streamed_entry env [], apology]
                      | Some (Body chunks ending) \<Rightarrow>
                          streamed_entry env chunks #
                          (case ending of Done \<Rightarrow> [] | Read_rejects \<Rightarrow> [apology])))"
  have "chatMessages (handleSend env st) = chatMessages st @ user_entry st # ?shown"
    using assms(1) by (rule handleSend_messages_cases)
  moreover have "user_entry st = \<lparr>role = User, content = userMessage_of st, image_opt = Some img\<rparr>"
    using assms(2,3) by (simp add: user_entry_def)
  moreover have "\<forall>m \<in> set ?shown. image_opt m = None"
    by (auto simp: apology_def streamed_entry_def
        split: fetch_result.splits option.splits body.splits read_end.splits)
  ultimately show "\<exists>shown. chatMessages (handleSend env st) =
            chatMessages st @
            \<lparr>role = User, content = userMessage_of st, image_opt = Some img\<rparr> # shown \<and>
            (\<forall>m \<in> set shown. image_opt m = None)"
    by auto
next
  fix t
  show "image_base64 (send_request ((handleSend env st)\<lparr>userInput := t\<rparr>)) = None"
    using handleSend_clears_image [OF assms(1), of env]
    by (simp add: send_request_def request_body_def)
qed

section \<open>The voice hook and the session identifier\<close>

lemma blank_trim: "blank s \<longleftrightarrow> s = [] \<or> trim s = []"
  by (auto simp: blank_def trim_Nil_iff)

lemma network_emit_Console [simp]: "network (emit (Console args) st) = network st"
  by (simp add: network_def emit_def)

lemma connectWebSocket_blank:
  "blank (chatSessionId st) \<Longrightarrow>
     network (connectWebSocket st) = network st \<and> voice (connectWebSocket st) = voice st \<and>
     chatSessionId (connectWebSocket st) = chatSessionId st"
  by (auto simp: blank_trim connectWebSocket_def emit_def network_def)

lemma voice_mount_effect_blank:
  "blank (chatSessionId st) \<Longrightarrow>
     network (voice_mount_effect st) = network st \<and> voice (voice_mount_effect st) = voice st \<and>
     chatSessionId (voice_mount_effect st) = chatSessionId st"
  by (auto simp: blank_trim voice_mount_effect_def emit_def network_def)

lemma hook_step_no_socket:
  assumes "no_socket st"
  shows "no_socket (hook_step env st e) \<and> network (hook_step env st e) = network st"
proof (cases e)
  case Mount
  with assms voice_mount_effect_blank [of st] show ?thesis by (simp add: no_socket_def)
next
  case Cleanup
  with assms show ?thesis by (simp add: no_socket_def voice_cleanup_def)
next
  case Context_changed
  with assms show ?thesis by (simp add: no_socket_def context_effect_def)
next
  case Socket_opened
  with assms show ?thesis by (simp add: no_socket_def ws_onopen_def)
next
  case Socket_closed
  with assms show ?thesis by (simp add: no_socket_def ws_onclose_def)
next
  case (Socket_message d)
  with assms show ?thesis by (simp add: no_socket_def ws_onmessage_def)
next
  case (Recording_loaded a)
  with assms show ?thesis by (simp add: no_socket_def recording_loaded_def)
next
  case (Confirmation b)
  with assms show ?thesis
    by (simp add: no_socket_def sendConfirmation_def Let_def network_def)
qed

lemma hook_run_no_socket:
  "no_socket st \<Longrightarrow> network (hook_run env events st) = network st"
proof (induction events arbitrary: st)
  case Nil
  show ?case by (simp add: hook_run_def)
next
  case (Cons e es)
  from hook_step_no_socket [OF Cons.prems, of env e]
  have n: "no_socket (hook_step env st e)" and eq: "network (hook_step env st e) = network st"
    by simp_all
  from Cons.IH [OF n] eq show ?case by (simp add: hook_run_def)
qed

lemma trace_confirm_reply_Ws:
  "Ws_send m \<in> set (trace (snd (confirm_reply env result st))) \<Longrightarrow> Ws_send m \<in> set (trace st)"
  by (auto simp: confirm_reply_def Let_def emit_def set_processingActive_def split: sum.splits)

lemma frame_confirm_reply:
  "chatSessionId (snd (confirm_reply env result st)) = chatSessionId st \<and>
   websocketRef (voice (snd (confirm_reply env result st))) = websocketRef (voice st)"
  by (auto simp: confirm_reply_def Let_def emit_def set_processingActive_def split: sum.splits)

lemma init_sound_confirm_reply:
  assumes "init_sound st"
  shows "init_sound (snd (confirm_reply env result st))"
proof -
  let ?st' = "snd (confirm_reply env result st)"
  have f: "chatSessionId ?st' = chatSessionId st" "websocketRef (voice ?st') = websocketRef (voice st)"
    using frame_confirm_reply [of env result st] by simp_all
  have t: "\<And>m. Ws_send m \<in> set (trace ?st') \<Longrightarrow> Ws_send m \<in> set (trace st)"
    by (rule trace_confirm_reply_Ws)
  show ?thesis
    unfolding init_sound_def f using assms t by (auto simp: init_sound_def)
qed

lemma init_sound_failure:
  assumes "init_sound st"
  shows "init_sound (onError m (set_processingActive b (emit (Console args) st))) \<and>
         chatSessionId (onError m (set_processingActive b (emit (Console args) st))) = chatSessionId st"
  using assms
  by (auto simp: init_sound_def onError_def push_message_def emit_def set_processingActive_def)

lemma sendConfirmation_init_sound:
  assumes "init_sound st"
  shows "init_sound (sendConfirmation env b st) \<and>
         chatSessionId (sendConfirmation env b st) = chatSessionId st"
proof (cases "socket_open st")
  case False
  then show ?thesis using assms
    by (auto simp: sendConfirmation_def socket_open_def Let_def init_sound_def split: option.splits)
next
  case True
  then obtain ws where ws: "websocketRef (voice st) = Some ws" "readyState ws = OPEN"
    by (auto simp: socket_open_def split: option.splits)
  let ?m = "if b then ''yes'' else ''no''"
  let ?st1 = "st\<lparr>voice := (voice st)
                  \<lparr>voiceMessages := voiceMessages (voice st) @
                     [\<lparr>type_v = User, text_v = JStr ?m, audio = None\<rparr>],
                   needsConfirmation := False,
                   consequenceDetails_voice := JNull\<rparr>\<rparr>"
  let ?body = "\<lparr>message = ?m, session_id = chatSessionId st,
             context_page = currentContextPage st, image_base64 = None\<rparr>"
  let ?st2 = "emit (Fetch (Chat_request ?body)) (set_processingActive True ?st1)"
  let ?r = "confirm_reply env (fetch env (Chat_request ?body)) ?st2"
  have eq: "sendConfirmation env b st =
      (case fst ?r of None \<Rightarrow> snd ?r
       | Some e \<Rightarrow> onError ''Failed to send confirmation''
                        (set_processingActive False
                           (emit (Console [Text ''Error sending confirmation:'', Thrown e]) (snd ?r))))"
    using ws by (simp add: sendConfirmation_def Let_def)
  have s2: "init_sound ?st2" using assms
    by (auto simp: init_sound_def emit_def set_processingActive_def)
  have sr: "init_sound (snd ?r)"
    using s2 by (rule init_sound_confirm_reply)
  have idr: "chatSessionId (snd ?r) = chatSessionId st"
    using frame_confirm_reply [of env "fetch env (Chat_request ?body)" ?st2]
    by (simp add: emit_def set_processingActive_def)
  show ?thesis
  proof (cases "fst ?r")
    case None
    with eq sr idr show ?thesis by simp
  next
    case (Some e)
    with eq have "sendConfirmation env b st =
        onError ''Failed to send confirmation''
          (set_processingActive False
             (emit (Console [Text ''Error sending confirmation:'', Thrown e]) (snd ?r)))"
      by simp
    with init_sound_failure [OF sr] idr show ?thesis by simp
  qed
qed

lemma ws_onmessage_frame:
  "chatSessionId (ws_onmessage env d st) = chatSessionId st \<and>
   websocketRef (voice (ws_onmessage env d st)) = websocketRef (voice st) \<and>
   (\<forall>m. Ws_send m \<in> set (trace (ws_onmessage env d st)) \<longrightarrow> Ws_send m \<in> set (trace st))"
  by (auto simp: ws_onmessage_def emit_def onError_def push_message_def set_processingActive_def
      split: option.splits sum.splits jsval.splits prod.splits)

lemma ws_onmessage_init_sound:
  assumes "init_sound st"
  shows "init_sound (ws_onmessage env d st)"
proof -
  let ?st' = "ws_onmessage env d st"
  have f: "chatSessionId ?st' = chatSessionId st" "websocketRef (voice ?st') = websocketRef (voice st)"
    using ws_onmessage_frame [of env d st] by simp_all
  have t: "\<And>m. Ws_send m \<in> set (trace ?st') \<Longrightarrow> Ws_send m \<in> set (trace st)"
    using ws_onmessage_frame [of env d st] by blast
  show ?thesis
    unfolding init_sound_def f using assms t by (auto simp: init_sound_def)
qed

lemma hook_step_init_sound:
  assumes "init_sound st"
  shows "init_sound (hook_step env st e) \<and> chatSessionId (hook_step env st e) = chatSessionId st"
proof (cases e)
  case Mount
  with assms show ?thesis
    by (auto simp: init_sound_def voice_mount_effect_def connectWebSocket_def emit_def blank_trim)
next
  case Cleanup
  with assms show ?thesis
    by (auto simp: init_sound_def voice_cleanup_def emit_def split: option.splits)
next
  case Context_changed
  with assms show ?thesis
    by (auto simp: init_sound_def context_effect_def emit_def split: option.splits)
next
  case Socket_opened
  with assms show ?thesis
    by (auto simp: init_sound_def ws_onopen_def emit_def split: option.splits)
next
  case Socket_closed
  with assms show ?thesis
    by (auto simp: init_sound_def ws_onclose_def emit_def split: option.splits)
next
  case (Socket_message d)
  with ws_onmessage_init_sound [OF assms] ws_onmessage_frame [of env d st] show ?thesis by simp
next
  case (Recording_loaded a)
  with assms show ?thesis
    by (auto simp: init_sound_def recording_loaded_def emit_def set_processingActive_def
        split: option.splits)
next
  case (Confirmation b)
  with sendConfirmation_init_sound [OF assms] show ?thesis by simp
qed

lemma hook_run_init_sound:
  "init_sound st \<Longrightarrow>
     init_sound (hook_run env events st) \<and> chatSessionId (hook_run env events st) = chatSessionId st"
proof (induction events arbitrary: st)
  case Nil
  then show ?case by (simp add: hook_run_def)
next
  case (Cons e es)
  from hook_step_init_sound [OF Cons.prems, of env e]
  have n: "init_sound (hook_step env st e)"
    and eq: "chatSessionId (hook_step env st e) = chatSessionId st"
    by simp_all
  from Cons.IH [OF n] eq show ?case by (simp add: hook_run_def)
qed

text \<open>
  Claim C10. With a session identifier that is empty or white space only,
  \<^verbatim>\<open>connectWebSocket\<close> and the mount effect of the voice hook return early: they open no
  socket, send nothing and leave the state of the hook as it is. From a component that has
  mounted with such an identifier, no sequence of events of the hook reaches the network.
  For any identifier, every initialization message the hook sends carries the identifier of
  the component, which is then not blank.
\<close>

theorem voice_hook_needs_session_id:
  "(blank (chatSessionId st) \<longrightarrow>
      network (connectWebSocket st) = network st \<and> voice (connectWebSocket st) = voice st \<and>
      network (voice_mount_effect st) = network st \<and> voice (voice_mount_effect st) = voice st) \<and>
   (blank sid \<longrightarrow> network (hook_run env events (mounted sid ctx)) = []) \<and>
   (Ws_send (Init s c) \<in> set (trace (hook_run env events (mounted sid ctx))) \<longrightarrow>
      s = sid \<and> \<not> blank s)"
proof (intro conjI impI)
  assume b: "blank (chatSessionId st)"
  show "network (connectWebSocket st) = network st" "voice (connectWebSocket st) = voice st"
    using connectWebSocket_blank [OF b] by simp_all
  show "network (voice_mount_effect st) = network st" "voice (voice_mount_effect st) = voice st"
    using voice_mount_effect_blank [OF b] by simp_all
next
  assume "blank sid"
  then have "no_socket (mounted sid ctx)"
    by (simp add: no_socket_def mounted_def initial_chat_def initial_voice_def)
  then have "network (hook_run env events (mounted sid ctx)) = network (mounted sid ctx)"
    by (rule hook_run_no_socket)
  then show "network (hook_run env events (mounted sid ctx)) = []"
    by (simp add: network_def mounted_def initial_chat_def)
next
  assume a: "Ws_send (Init s c) \<in> set (trace (hook_run env events (mounted sid ctx)))"
  have "init_sound (mounted sid ctx)"
    by (simp add: init_sound_def mounted_def initial_chat_def initial_voice_def)
  from hook_run_init_sound [OF this, of env events] a
  have "s = chatSessionId (mounted sid ctx) \<and> \<not> blank s"
    by (auto simp: init_sound_def)
  then show "s = sid" "\<not> blank s" by (auto simp add: mounted_def initial_chat_def)
qed

section \<open>Runs of the send handler alone\<close>

lemma isProcessing_confirm_reply:
  "isProcessing (snd (confirm_reply env result st)) = isProcessing st"
  by (auto simp: confirm_reply_def Let_def emit_def set_processingActive_def
      split: sum.splits)

lemma isProcessing_sendConfirmation:
  "isProcessing (sendConfirmation env b st) = isProcessing st"
  by (auto simp: sendConfirmation_def Let_def emit_def set_processingActive_def onError_def
      push_message_def isProcessing_confirm_reply split: option.splits)

lemma isProcessing_ws_onmessage: "isProcessing (ws_onmessage env d st) = isProcessing st"
  by (auto simp: ws_onmessage_def emit_def onError_def push_message_def set_processingActive_def
      split: option.splits sum.splits jsval.splits prod.splits)

lemma isProcessing_hook_step: "isProcessing (hook_step env st e) = isProcessing st"
  by (cases e)
     (auto simp: voice_mount_effect_def connectWebSocket_def voice_cleanup_def context_effect_def
        ws_onopen_def ws_onclose_def recording_loaded_def set_processingActive_def emit_def
        isProcessing_ws_onmessage isProcessing_sendConfirmation split: option.splits)

lemma isProcessing_process_lines:
  "isProcessing (snd (process_lines env wc lines (acc, st))) = isProcessing st"
  using display_only_process_lines [of "(acc, st)" env wc lines] by (simp add: display_only_def)

lemma single_flight_settled:
  assumes "single_flight c"
  shows "single_flight (client_step env c (Settled i))"
proof (cases "i < length (runs c)")
  case False
  with assms show ?thesis by simp
next
  case True
  with assms have p: "isProcessing (ui c)" and l: "length (runs c) = 1" and i: "i = 0"
    by (auto simp: single_flight_def split: if_splits)
  from l obtain t where t: "runs c = [t]" by (cases "runs c") auto
  show ?thesis
  proof (cases t)
    case (Awaiting_fetch wc r)
    with t i p show ?thesis
      by (auto simp: single_flight_def end_of_run_def push_message_def emit_def
          split: fetch_result.splits option.splits body.splits)
  next
    case (Awaiting_read wc acc chunks ending)
    show ?thesis
    proof (cases chunks)
      case Nil
      with Awaiting_read t i show ?thesis
        by (auto simp: single_flight_def end_of_run_def push_message_def emit_def
            split: read_end.splits)
    next
      case (Cons chunk rest)
      with Awaiting_read t i p show ?thesis
        by (simp add: single_flight_def Let_def isProcessing_process_lines)
    qed
  qed
qed

lemma single_flight_step:
  assumes "single_flight c"
      and "\<forall>b. e \<noteq> Confirm_clicked b \<and> e \<noteq> Hook (Confirmation b)"
  shows "single_flight (client_step env c e)"
proof (cases e)
  case Send_clicked
  show ?thesis
  proof (cases "may_send (ui c)")
    case True
    then have "\<not> isProcessing (ui c)" by (simp add: may_send_def)
    with assms(1) have "runs c = []" by (simp add: single_flight_def)
    with True Send_clicked show ?thesis
      by (simp add: add_run_def start_send_run single_flight_def emit_def begin_send_def)
  next
    case False
    with Send_clicked assms(1) show ?thesis
      by (simp add: add_run_def start_send_idle single_flight_def)
  qed
next
  case (Confirm_clicked b)
  with assms(2) have False by blast
  then show ?thesis ..
next
  case (Input_typed typed)
  with assms(1) show ?thesis by (simp add: single_flight_def type_input_def)
next
  case (Image_read base64String)
  with assms(1) show ?thesis by (simp add: single_flight_def image_loaded_def)
next
  case (Hook h)
  with assms(1) show ?thesis by (simp add: single_flight_def isProcessing_hook_step)
next
  case (Settled i)
  with assms(1) show ?thesis by (simp only: single_flight_settled)
qed

lemma sends_do_not_overlap:
  assumes "single_flight c"
      and "\<forall>e \<in> set events. \<forall>b. e \<noteq> Confirm_clicked b \<and> e \<noteq> Hook (Confirmation b)"
  shows "single_flight (client_run env events c)"
  using assms
proof (induction events arbitrary: c)
  case Nil
  then show ?case by (simp add: client_run_def)
next
  case (Cons e events)
  from Cons.prems have "single_flight (client_step env c e)"
    by (intro single_flight_step) simp_all
  then have "single_flight (client_run env events (client_step env c e))"
    using Cons.prems by (intro Cons.IH) simp_all
  then show ?case by (simp add: client_run_Cons)
qed

section \<open>Replies whose lines arrive whole\<close>

lemma split_from_char:
  "split_from [c] acc (xs @ c # ys) = split_from [c] acc xs @ split_from [c] [] ys"
proof (induction xs arbitrary: acc)
  case Nil
  show ?case by simp
next
  case (Cons x xs)
  show ?case
  proof (cases "x = c")
    case True
    then show ?thesis using Cons.IH [of "[]"] by simp
  next
    case False
    then show ?thesis using Cons.IH [of "x # acc"] by simp
  qed
qed

lemma js_split_line:
  "js_split (xs @ CHR 0x0A # ys) [CHR 0x0A] = js_split xs [CHR 0x0A] @ js_split ys [CHR 0x0A]"
  by (simp add: js_split_def split_from_char)

lemma stream_events_blank: "stream_events env ([] # lines) = stream_events env lines"
  by (simp add: stream_events_def List.map_filter_simps trim_def)

lemma uncut_events:
  assumes "uncut chunks"
  shows "stream_events env (lines_of chunks) =
           stream_events env (js_split (concat chunks) [CHR 0x0A])"
  using assms
proof (induction chunks)
  case Nil
  show ?case
    by (simp add: lines_of_def js_split_def stream_events_def List.map_filter_simps trim_def)
next
  case (Cons chunk chunks)
  from Cons.prems have "chunk \<noteq> []" "last chunk = CHR 0x0A" and u: "uncut chunks"
    by (simp_all add: uncut_def)
  then obtain xs where c: "chunk = xs @ [CHR 0x0A]"
    by (metis append_butlast_last_id)
  have "lines_of (chunk # chunks) = (js_split xs [CHR 0x0A] @ [[]]) @ lines_of chunks"
    using js_split_line [of xs "[]"] by (simp add: lines_of_def c js_split_def)
  then have "stream_events env (lines_of (chunk # chunks)) =
      stream_events env (js_split xs [CHR 0x0A]) @ stream_events env (lines_of chunks)"
    by (simp add: stream_events_append stream_events_blank)
  also have "\<dots> = stream_events env (js_split xs [CHR 0x0A]) @
      stream_events env (js_split (concat chunks) [CHR 0x0A])"
    using Cons.IH [OF u] by simp
  also have "\<dots> = stream_events env (js_split (concat (chunk # chunks)) [CHR 0x0A])"
    using js_split_line [of xs "concat chunks"] by (simp add: c stream_events_append)
  finally show ?case .
qed

lemma uncut_reply:
  assumes "may_send st"
      and "fetch env (Chat_request (send_request st)) = Response True (Some (Body chunks Done))"
      and "uncut chunks"
  shows "chatMessages (handleSend env st) =
           chatMessages st @
           [user_entry st,
            \<lparr>role = Assistant,
             content = tokens_text (stream_events env (js_split (concat chunks) [CHR 0x0A])),
             image_opt = None\<rparr>]"
  by (simp add: handleSend_messages_cases [OF assms(1)] assms(2) streamed_entry_def
      uncut_events [OF assms(3)])

section \<open>The percentage of the progress bar\<close>

lemma clamp_within:
  assumes "v \<noteq> NaN"
  shows "within_0_100 (Math_min (Math_max v (Fin 0)) (Fin 100))"
  using assms by (cases v) auto

lemma js_mul_100_not_NaN:
  assumes "\<And>x. fl x \<noteq> NaN" "q \<noteq> NaN"
  shows "js_mul fl q (Fin 100) \<noteq> NaN"
  using assms by (cases q) auto

lemma js_div_not_NaN:
  assumes "\<And>x. fl x \<noteq> NaN" "v \<noteq> NaN" "0 < m"
  shows "js_div fl v (Fin m) \<noteq> NaN"
  using assms by (cases v) auto

text \<open>
  Claim C9. For every finite value \<open>x\<close>, negative or beyond the maximum, and every
  finite maximum \<open>m > 0\<close>, the percentage lies between 0 and 100, whatever the rounding of
  the division and the multiplication (a rounding never yields \<^verbatim>\<open>NaN\<close>); without
  rounding it is \<open>min (max (x / m * 100) 0) 100\<close>. An infinite value gives 100 or 0. For
  a maximum of 0 the bound is not guaranteed: the percentage of 0 out of 0 is \<^verbatim>\<open>NaN\<close>.
\<close>

theorem progress_bar_percentage_bounds:
  assumes "\<forall>r. fl r \<noteq> NaN" and "0 < m"
  shows "within_0_100 (percentage fl (Fin x) (Fin m)) \<and>
         percentage Fin (Fin x) (Fin m) = Fin (min (max (x / m * 100) 0) 100) \<and>
         percentage fl PInf (Fin m) = Fin 100 \<and>
         percentage fl NInf (Fin m) = Fin 0 \<and>
         percentage fl (Fin 0) (Fin 0) = NaN \<and>
         \<not> within_0_100 (percentage fl (Fin 0) (Fin 0))"
proof (intro conjI)
  have r: "\<And>r. fl r \<noteq> NaN" using assms(1) by simp
  have "js_mul fl (js_div fl (Fin x) (Fin m)) (Fin 100) \<noteq> NaN"
    using r assms(2) by (intro js_mul_100_not_NaN js_div_not_NaN) simp_all
  then show "within_0_100 (percentage fl (Fin x) (Fin m))"
    unfolding percentage_def by (rule clamp_within)
  show "percentage Fin (Fin x) (Fin m) = Fin (min (max (x / m * 100) 0) 100)"
    using assms(2) by (simp add: percentage_def)
  show "percentage fl PInf (Fin m) = Fin 100" "percentage fl NInf (Fin m) = Fin 0"
    using assms(2) by (simp_all add: percentage_def)
  show p0: "percentage fl (Fin 0) (Fin 0) = NaN"
    by (simp add: percentage_def)
  show "\<not> within_0_100 (percentage fl (Fin 0) (Fin 0))"
    by (simp add: p0)
qed

section \<open>High-impact tools in the pipeline\<close>

lemma reply_synthesizer_frame:
  "persistence (snd (reply_synthesizer co sid a eng)) = persistence eng \<and>
   checkpoints (snd (reply_synthesizer co sid a eng)) = checkpoints eng \<and>
   leases (snd (reply_synthesizer co sid a eng)) = leases eng"
  by (simp add: reply_synthesizer_def Let_def)

lemma execute_and_reply_persistence:
  "persistence (snd (execute_and_reply co sid tool a eng)) =
     snd (action_executor co tool (entities_of a) (persistence eng))"
  by (simp add: execute_and_reply_def Let_def reply_synthesizer_frame)

lemma submit_high_impact:
  assumes "sid \<notin> leases eng"
      and "selected_tool (analysed co sid raw ctx img eng) = Some tool"
      and "registry co tool = Some d" and "impact_level d = High"
  shows "submit co sid raw ctx img eng = suspend co sid tool (analysed co sid raw ctx img eng) eng"
  using assms by (simp add: submit_def analysed_def Let_def)

lemma suspend_frame:
  "persistence (snd (suspend co sid tool a eng)) = persistence eng \<and>
   leases (snd (suspend co sid tool a eng)) = leases eng \<and>
   checkpoints (snd (suspend co sid tool a eng)) sid =
     Some \<lparr>checkpoint_session_id = sid,
           agent_state_snapshot =
             a\<lparr>impact_assessment :=
                  Some (snd (resolve_consequence co tool (entities_of a) (persistence eng))),
               awaiting_confirmation := True\<rparr>,
           suspended_at_stage = ''safety_gate''\<rparr>"
  by (simp add: suspend_def Let_def)

lemma action_executor_valid:
  assumes "registry co tool = Some d" "missing_parameters (parameter_schema d) ents = []"
  shows "snd (action_executor co tool ents db) = snd (handler d ents db)"
  using assms by (simp add: action_executor_def split: prod.splits sum.splits)

lemma action_executor_invalid:
  assumes "registry co tool = Some d" "missing_parameters (parameter_schema d) ents \<noteq> []"
  shows "snd (action_executor co tool ents db) = db"
  using assms by (simp add: action_executor_def)

text \<open>
  Claim C1. When the lease of the session is free and the selector picks a tool that the
  registry rates high-impact, \<^verbatim>\<open>submit\<close> yields an interrupt payload, leaves the persistent
  state as it was and leaves a checkpoint for the session. A following \<^verbatim>\<open>resume\<close> with a
  rejection leaves the persistent state as it was, too. A following \<^verbatim>\<open>resume\<close> with an
  approval leaves the state that the Action Executor produces for the tool and the entities
  of the checkpoint, which is the state the handler returns when no required parameter is
  missing.
\<close>

theorem high_impact_waits_for_approval:
  assumes "sid \<notin> leases eng"
      and "selected_tool (analysed co sid raw ctx img eng) = Some tool"
      and "registry co tool = Some d" and "impact_level d = High"
  shows "(\<exists>msg consequence. fst (submit co sid raw ctx img eng) =
            Interrupt (InterruptPayload msg consequence)) \<and>
         persistence (suspended co sid raw ctx img eng) = persistence eng \<and>
         checkpoints (suspended co sid raw ctx img eng) sid \<noteq> None \<and>
         persistence (snd (resume co sid False (suspended co sid raw ctx img eng))) =
           persistence eng \<and>
         persistence (snd (resume co sid True (suspended co sid raw ctx img eng))) =
           snd (action_executor co tool (entities_of (analysed co sid raw ctx img eng))
                  (persistence eng)) \<and>
         (missing_parameters (parameter_schema d) (entities_of (analysed co sid raw ctx img eng)) = []
            \<longrightarrow> persistence (snd (resume co sid True (suspended co sid raw ctx img eng))) =
                  snd (handler d (entities_of (analysed co sid raw ctx img eng)) (persistence eng)))"
proof -
  let ?a = "analysed co sid raw ctx img eng"
  let ?e = "suspended co sid raw ctx img eng"
  have sub: "submit co sid raw ctx img eng = suspend co sid tool ?a eng"
    using assms by (rule submit_high_impact)
  have 1: "\<exists>msg consequence. fst (submit co sid raw ctx img eng) =
            Interrupt (InterruptPayload msg consequence)"
    by (simp add: sub suspend_def Let_def)
  have fr: "persistence ?e = persistence eng" "leases ?e = leases eng"
    "checkpoints ?e sid =
     Some \<lparr>checkpoint_session_id = sid,
           agent_state_snapshot =
             ?a\<lparr>impact_assessment :=
                  Some (snd (resolve_consequence co tool (entities_of ?a) (persistence eng))),
               awaiting_confirmation := True\<rparr>,
           suspended_at_stage = ''safety_gate''\<rparr>"
    using suspend_frame [of co sid tool ?a eng] by (simp_all add: suspended_def sub)
  have 4: "persistence (snd (resume co sid False ?e)) = persistence eng"
    using assms(1) fr by (simp add: resume_def Let_def reply_synthesizer_frame)
  have 5: "persistence (snd (resume co sid True ?e)) =
           snd (action_executor co tool (entities_of ?a) (persistence eng))"
    using assms(1,2) fr
    by (simp add: resume_def Let_def execute_and_reply_persistence entities_of_def)
  have 6: "missing_parameters (parameter_schema d) (entities_of ?a) = []
            \<longrightarrow> persistence (snd (resume co sid True ?e)) =
                  snd (handler d (entities_of ?a) (persistence eng))"
    using 5 action_executor_valid [OF assms(3)] by simp
  from 1 fr(1) fr(3) 4 5 6 show ?thesis by simp
qed

section \<open>The example runs\<close>

lemma example_mounted_eq: "example_mounted = mounted ''s1'' ''busDashboard''"
  by (simp add: example_mounted_def session_effect_def detect_page_effect_def detectedPage_def
      mounted_def initial_chat_def)

lemma example_state_eq: "example_state = (mounted ''s1'' ''busDashboard'')\<lparr>userInput := ''list''\<rparr>"
  by (simp add: example_state_def type_input_def example_mounted_eq)

lemma may_send_example: "may_send example_state"
  by (simp add: may_send_def example_state_eq mounted_def initial_chat_def trim_def js_whitespace_def)

section \<open>A line cut by a chunk boundary\<close>

lemma example_user_entry:
  "user_entry example_state = \<lparr>role = User, content = ''list'', image_opt = None\<rparr>"
  by (simp add: user_entry_def userMessage_of_def example_state_eq mounted_def initial_chat_def)

lemma fetch_serving:
  "fetch (serving chunks) r = Response True (Some (Body chunks Done))"
  "JSON_parse (serving chunks) = example_parse"
  by (simp_all add: serving_def)

lemma whole_lines:
  \<open>lines_of whole_chunks =
     [''{"type":"token","content":"Hi"}'', [], ''{"type":"token","content":" there"}'', []]\<close>
  by (simp add: lines_of_def whole_chunks_def js_split_def)

lemma cut_lines:
  \<open>lines_of cut_chunks =
     [''{"type":"token","content":"Hi"}'', ''{"type":"token","con'', ''tent":" there"}'', []]\<close>
  by (simp add: lines_of_def cut_chunks_def js_split_def)

lemma cut_stream_lines:
  \<open>js_split (concat cut_chunks) [CHR 0x0A] =
     [''{"type":"token","content":"Hi"}'', ''{"type":"token","content":" there"}'', []]\<close>
  by (simp add: cut_chunks_def js_split_def)

lemma whole_events:
  \<open>stream_events (serving chunks)
     [''{"type":"token","content":"Hi"}'', [], ''{"type":"token","content":" there"}'', []] =
     [JObj [(''type'', JStr ''token''), (''content'', JStr ''Hi'')],
      JObj [(''type'', JStr ''token''), (''content'', JStr '' there'')]]\<close>
  \<open>stream_events (serving chunks)
     [''{"type":"token","content":"Hi"}'', ''{"type":"token","content":" there"}'', []] =
     [JObj [(''type'', JStr ''token''), (''content'', JStr ''Hi'')],
      JObj [(''type'', JStr ''token''), (''content'', JStr '' there'')]]\<close>
  by (simp_all add: stream_events_def List.map_filter_simps trim_def js_whitespace_def
      serving_def example_parse_def example_audio_response_def)

lemma cut_events:
  \<open>stream_events (serving chunks)
     [''{"type":"token","content":"Hi"}'', ''{"type":"token","con'', ''tent":" there"}'', []] =
     [JObj [(''type'', JStr ''token''), (''content'', JStr ''Hi'')]]\<close>
  by (simp add: stream_events_def List.map_filter_simps trim_def js_whitespace_def
      serving_def example_parse_def example_audio_response_def)

text \<open>
  Claim C3 fails on a reply in which a chunk boundary cuts a line. The server streams two
  events of type \<^verbatim>\<open>"token"\<close>, \<open>Hi\<close> and \<open> there\<close>, one to a line. When every chunk ends at
  the end of a line, the entry of the turn shows \<open>Hi there\<close>. When the same text arrives in
  two chunks of which the first ends inside the second line, the loop splits each chunk on
  its own, neither piece of the line parses, both are logged, and the entry of the turn
  shows \<open>Hi\<close>: the second token is lost, although the events of the stream are the same.
\<close>

theorem cut_line_loses_token:
  \<open>concat cut_chunks = concat whole_chunks \<and>
   tokens_text (stream_events (serving cut_chunks) (js_split (concat cut_chunks) [CHR 0x0A])) =
     ''Hi there'' \<and>
   chatMessages (handleSend (serving whole_chunks) example_state) =
     chatMessages example_state @
     [\<lparr>role = User, content = ''list'', image_opt = None\<rparr>,
      \<lparr>role = Assistant, content = ''Hi there'', image_opt = None\<rparr>] \<and>
   chatMessages (handleSend (serving cut_chunks) example_state) =
     chatMessages example_state @
     [\<lparr>role = User, content = ''list'', image_opt = None\<rparr>,
      \<lparr>role = Assistant, content = ''Hi'', image_opt = None\<rparr>]\<close>
proof -
  have a: "concat cut_chunks = concat whole_chunks"
    by (simp add: cut_chunks_def whole_chunks_def)
  have b: \<open>tokens_text (stream_events (serving cut_chunks)
             (js_split (concat cut_chunks) [CHR 0x0A])) = ''Hi there''\<close>
    by (simp add: cut_stream_lines whole_events tokens_text_def is_token_def content_text_def)
  have c: "chatMessages (handleSend (serving whole_chunks) example_state) =
     chatMessages example_state @
     [\<lparr>role = User, content = ''list'', image_opt = None\<rparr>,
      \<lparr>role = Assistant, content = ''Hi there'', image_opt = None\<rparr>]"
    by (simp add: handleSend_messages_cases [OF may_send_example] fetch_serving streamed_entry_def
        whole_lines whole_events example_user_entry tokens_text_def is_token_def content_text_def)
  have d: "chatMessages (handleSend (serving cut_chunks) example_state) =
     chatMessages example_state @
     [\<lparr>role = User, content = ''list'', image_opt = None\<rparr>,
      \<lparr>role = Assistant, content = ''Hi'', image_opt = None\<rparr>]"
    by (simp add: handleSend_messages_cases [OF may_send_example] fetch_serving streamed_entry_def
        cut_lines cut_events example_user_entry tokens_text_def is_token_def content_text_def)
  from a b c d show ?thesis by blast
qed

section \<open>Examples for the confirmation handlers and the failures\<close>

lemma example_voice_open_eval:
  "example_voice_open =
     (mounted ''s1'' ''busDashboard'')
       \<lparr>isVoiceActive := True,
        confirmationState :=
          \<lparr>isVisible = True, alertMessage = JStr ''Sure?'',
           consequenceDetails = JObj [(''message'', JStr ''Sure?'')]\<rparr>,
        voice :=
          \<lparr>websocketRef = Some \<lparr>readyState = OPEN, init_session = ''s1'',
                                 init_context = ''busDashboard''\<rparr>,
           voiceMessages = [\<lparr>type_v = Assistant, text_v = JStr ''Sure?'',
                             audio = Some (JStr ''QUJD'')\<rparr>],
           needsConfirmation = True,
           consequenceDetails_voice = JObj [(''message'', JStr ''Sure?'')],
           processingActive = False\<rparr>,
        trace := [Console [Text ''Initializing voice WebSocket with session: s1''],
                  Open_websocket,
                  Console [Text ''Voice WebSocket connected''],
                  Ws_send (Init ''s1'' ''busDashboard''),
                  Console [Text ''Received audio response''],
                  Play_audio (JStr ''QUJD'')]\<rparr>"
  by (simp add: example_voice_open_def example_mounted_eq enter_voice_mode_def hook_run_def
      voice_mount_effect_def connectWebSocket_def ws_onopen_def ws_onmessage_def
      voice_confirmation_effect_def emit_def mounted_def initial_chat_def initial_voice_def
      trim_def js_whitespace_def example_env_def example_parse_def example_audio_response_def)

lemma example_voice_closed_eval:
  "example_voice_closed =
     (mounted ''s1'' ''busDashboard'')
       \<lparr>isVoiceActive := True,
        confirmationState :=
          \<lparr>isVisible = True, alertMessage = JStr ''Sure?'',
           consequenceDetails = JObj [(''message'', JStr ''Sure?'')]\<rparr>,
        voice :=
          \<lparr>websocketRef = Some \<lparr>readyState = CLOSED, init_session = ''s1'',
                                 init_context = ''busDashboard''\<rparr>,
           voiceMessages = [\<lparr>type_v = Assistant, text_v = JStr ''Sure?'',
                             audio = Some (JStr ''QUJD'')\<rparr>],
           needsConfirmation = True,
           consequenceDetails_voice = JObj [(''message'', JStr ''Sure?'')],
           processingActive = False\<rparr>,
        trace := [Console [Text ''Initializing voice WebSocket with session: s1''],
                  Open_websocket,
                  Console [Text ''Voice WebSocket connected''],
                  Ws_send (Init ''s1'' ''busDashboard''),
                  Console [Text ''Received audio response''],
                  Play_audio (JStr ''QUJD''),
                  Console [Text ''Voice WebSocket disconnected'']]\<rparr>"
  by (simp add: example_voice_closed_def example_voice_open_eval hook_run_def ws_onclose_def emit_def
      mounted_def initial_chat_def)

text \<open>
  Claim C2 as stated fails in voice mode once the voice socket has closed. The socket has
  delivered a request for a confirmation and closed, the dialog is visible, the user
  approves: the approval is noted among the voice messages, and no request is sent.
\<close>

theorem confirmation_not_submitted_counterexample:
  "isVoiceActive example_voice_closed \<and>
   isVisible (confirmationState example_voice_closed) \<and>
   chat_requests example_voice_closed = [] \<and>
   chat_requests (handleConfirmAction example_env True example_voice_closed) = [] \<and>
   voiceMessages (voice (handleConfirmAction example_env True example_voice_closed)) =
     [\<lparr>type_v = Assistant, text_v = JStr ''Sure?'', audio = Some (JStr ''QUJD'')\<rparr>,
      \<lparr>type_v = User, text_v = JStr ''yes'', audio = None\<rparr>]"
  by (simp add: example_voice_closed_eval handleConfirmAction_def sendConfirmation_def Let_def
      chat_requests_def List.map_filter_simps mounted_def initial_chat_def
      hidden_confirmation_def)

text \<open>
  Claim C2, as amended, on the examples: an approval in text mode, a rejection in voice mode
  with an open socket, a rejection in voice mode with a closed socket, and the request of
  the turn before.
\<close>

theorem confirm_resume_request_witness:
  "\<not> isVoiceActive example_state \<and>
   chat_requests (handleConfirmAction example_env True example_state) =
     [\<lparr>message = ''yes'', session_id = ''s1'', context_page = ''busDashboard'',
       image_base64 = None\<rparr>] \<and>
   socket_open example_voice_open \<and>
   chat_requests (handleConfirmAction example_env False example_voice_open) =
     [\<lparr>message = ''no'', session_id = ''s1'', context_page = ''busDashboard'',
       image_base64 = None\<rparr>] \<and>
   isVoiceActive example_voice_closed \<and> \<not> socket_open example_voice_closed \<and>
   network (handleConfirmAction example_env False example_voice_closed) =
     [Open_websocket, Ws_send (Init ''s1'' ''busDashboard'')] \<and>
   may_send example_state \<and>
   chat_requests (handleSend example_env example_state) =
     [\<lparr>message = ''list'', session_id = ''s1'', context_page = ''busDashboard'',
       image_base64 = None\<rparr>] \<and>
   chatSessionId (handleSend example_env example_state) = ''s1'' \<and>
   currentContextPage (handleSend example_env example_state) = ''busDashboard''"
proof -
  have t: "\<not> isVoiceActive example_state" "chat_requests example_state = []"
    "chatSessionId example_state = ''s1''" "currentContextPage example_state = ''busDashboard''"
    by (simp_all add: example_state_eq mounted_def initial_chat_def chat_requests_def
        List.map_filter_simps)
  have o: "socket_open example_voice_open" "chat_requests example_voice_open = []"
    "chatSessionId example_voice_open = ''s1''"
    "currentContextPage example_voice_open = ''busDashboard''"
    by (simp_all add: example_voice_open_eval socket_open_def mounted_def initial_chat_def
        chat_requests_def List.map_filter_simps)
  have c: "isVoiceActive example_voice_closed" "\<not> socket_open example_voice_closed"
    "network example_voice_closed = [Open_websocket, Ws_send (Init ''s1'' ''busDashboard'')]"
    by (simp_all add: example_voice_closed_eval socket_open_def network_def)
  have r: "send_request example_state =
     \<lparr>message = ''list'', session_id = ''s1'', context_page = ''busDashboard'',
       image_base64 = None\<rparr>"
    by (simp add: send_request_def request_body_def begin_send_def push_message_def
        userMessage_of_def example_state_eq mounted_def initial_chat_def)
  from confirm_resume_request [of example_state example_env True example_state example_env]
    confirm_resume_request [of example_voice_open example_env False example_state example_env]
    confirm_resume_request [of example_voice_closed example_env False example_state example_env]
  show ?thesis
    using t o c r may_send_example by simp
qed

text \<open>
  Claim C5 on the example with the network down, for a sent message and for a rejection, and
  on an error event.
\<close>

theorem send_failure_outcome_witness:
  \<open>may_send example_state \<and>
   \<not> isProcessing (handleSend failing_env example_state) \<and>
   chatMessages (handleSend failing_env example_state) =
     chatMessages example_state @
     [\<lparr>role = User, content = ''list'', image_opt = None\<rparr>,
      \<lparr>role = Assistant, content = ''Sorry, I encountered an error. Please try again.'',
       image_opt = None\<rparr>] \<and>
   \<not> isVoiceActive example_state \<and>
   \<not> isProcessing (handleConfirmAction failing_env False example_state) \<and>
   chatMessages (handleConfirmAction failing_env False example_state) =
     chatMessages example_state @
     [\<lparr>role = User, content = ''no'', image_opt = None\<rparr>,
      \<lparr>role = Assistant,
       content = ''Sorry, I encountered an error processing your confirmation.'',
       image_opt = None\<rparr>] \<and>
   trim ''{"type":"error","content":"boom"}'' \<noteq> [] \<and>
   JSON_parse failing_env ''{"type":"error","content":"boom"}'' =
     Some (JObj [(''type'', JStr ''error''), (''content'', JStr ''boom'')]) \<and>
   get_prop (JObj [(''type'', JStr ''error''), (''content'', JStr ''boom'')]) ''type'' =
     Inr (JStr ''error'') \<and>
   process_line failing_env True (''Hi'', loop_start example_state)
     ''{"type":"error","content":"boom"}'' =
     (''Hi'', emit (Console [Text ''Stream error:'', Val (JStr ''boom'')]) (loop_start example_state)) \<and>
   chatMessages (snd (process_line failing_env True (''Hi'', loop_start example_state)
                       ''{"type":"error","content":"boom"}'')) =
     chatMessages (loop_start example_state) \<and>
   confirmationState (snd (process_line failing_env True (''Hi'', loop_start example_state)
                       ''{"type":"error","content":"boom"}'')) =
     confirmationState (loop_start example_state)\<close>
proof -
  let ?line = \<open>''{"type":"error","content":"boom"}''\<close>
  let ?data = "JObj [(''type'', JStr ''error''), (''content'', JStr ''boom'')]"
  have f: "fetch failing_env (Chat_request (send_request example_state)) = Fetch_rejects"
    "fetch failing_env (Chat_request (confirm_request False example_state)) = Fetch_rejects"
    by (simp_all add: failing_env_def)
  have u: "user_entry example_state = \<lparr>role = User, content = ''list'', image_opt = None\<rparr>"
    by (simp add: user_entry_def userMessage_of_def example_state_eq mounted_def initial_chat_def)
  have v: "\<not> isVoiceActive example_state"
    by (simp add: example_state_eq mounted_def initial_chat_def)
  have h1: "trim ?line \<noteq> []" by (simp add: trim_def js_whitespace_def)
  have h2: "JSON_parse failing_env ?line = Some ?data"
    by (simp add: failing_env_def example_parse_def)
  have h3: "get_prop ?data ''type'' = Inr (JStr ''error'')" by simp
  from send_failure_outcome [where st = example_state and env = failing_env and b = False
      and line = ?line and data = ?data and wc = True and acc = "''Hi''"
      and st' = "loop_start example_state"]
  show ?thesis using may_send_example f u v h1 h2 h3
    by (auto simp add: apology_def confirmation_apology_def confirm_entry_def)
qed

section \<open>A confirmation that overlaps the run that asked for it\<close>

lemma send_request_example: "send_request example_state = example_request"
  by (simp add: send_request_def request_body_def begin_send_def push_message_def
      userMessage_of_def example_state_eq mounted_def initial_chat_def example_request_def)

lemma asking_sent:
  "client_run asking_env [Send_clicked, Settled 0] example_client =
     \<lparr>ui = loop_start example_state,
      runs = [Awaiting_read True [] asking_chunks Done]\<rparr>"
  using may_send_example
  by (simp add: client_run_def example_client_def add_run_def start_send_run loop_start_def
      send_request_example)
     (simp add: asking_env_def example_request_def)

lemma asking_parse:
  \<open>JSON_parse asking_env ''{"type":"token","content":"Hi"}'' =
     Some (JObj [(''type'', JStr ''token''), (''content'', JStr ''Hi'')])\<close>
  \<open>JSON_parse asking_env ''{"type":"confirmation","payload":{"message":"Sure?"}}'' =
     Some (JObj [(''type'', JStr ''confirmation''),
                 (''payload'', JObj [(''message'', JStr ''Sure?'')])])\<close>
  by (simp_all add: asking_env_def example_parse_def)

lemma asking_read:
  "client_run asking_env [Send_clicked, Settled 0, Settled 0] example_client =
     \<lparr>ui = asked, runs = [Awaiting_read True ''Hi'' [] Done]\<rparr>"
proof -
  have "client_run asking_env [Send_clicked, Settled 0, Settled 0] example_client =
          client_step asking_env (client_run asking_env [Send_clicked, Settled 0] example_client)
            (Settled 0)"
    by (simp add: client_run_def)
  also have "\<dots> = \<lparr>ui = asked, runs = [Awaiting_read True ''Hi'' [] Done]\<rparr>"
    unfolding asking_sent
    by (simp add: asking_chunks_def js_split_def process_lines_def process_line_def try_line_def
        trim_def js_whitespace_def asking_parse update_last_message_def chatMessages_loop_start
        placeholder_def example_user_entry asked_def Let_def butlast_append)
  finally show ?thesis .
qed

lemma asked_fields:
  "isProcessing asked" "\<not> isVoiceActive asked" "chatSessionId asked = ''s1''"
  "currentContextPage asked = ''busDashboard''" "isVisible (confirmationState asked)"
  "trace asked = [Fetch (Chat_request example_request)]"
  by (simp_all add: asked_def loop_start_def push_message_def emit_def begin_send_def
      send_request_example)
     (simp_all add: example_state_eq mounted_def initial_chat_def)

lemma start_confirm_asked:
  "fst (start_confirm asking_env True asked) = Some (Awaiting_fetch False (Chat_request yes_request))"
  "trace (snd (start_confirm asking_env True asked)) =
     [Fetch (Chat_request example_request), Fetch (Chat_request yes_request)]"
  "isProcessing (snd (start_confirm asking_env True asked))"
  "chatSessionId (snd (start_confirm asking_env True asked)) = ''s1''"
  "currentContextPage (snd (start_confirm asking_env True asked)) = ''busDashboard''"
  "uploadedImage (snd (start_confirm asking_env True asked)) = None"
  by (simp_all add: start_confirm_def asked_fields Let_def push_message_def emit_def yes_request_def)
     (simp_all add: asked_def loop_start_def push_message_def emit_def begin_send_def)

lemma overlap_confirmed:
  "client_run asking_env [Send_clicked, Settled 0, Settled 0, Confirm_clicked True] example_client =
     \<lparr>ui = snd (start_confirm asking_env True asked),
      runs = [Awaiting_read True ''Hi'' [] Done, Awaiting_fetch False (Chat_request yes_request)]\<rparr>"
proof -
  have "client_run asking_env [Send_clicked, Settled 0, Settled 0, Confirm_clicked True] example_client =
          client_step asking_env
            (client_run asking_env [Send_clicked, Settled 0, Settled 0] example_client)
            (Confirm_clicked True)"
    by (simp add: client_run_def)
  also have "\<dots> = \<lparr>ui = snd (start_confirm asking_env True asked),
      runs = [Awaiting_read True ''Hi'' [] Done, Awaiting_fetch False (Chat_request yes_request)]\<rparr>"
    unfolding asking_read by (simp add: add_run_def start_confirm_asked)
  finally show ?thesis .
qed

lemma overlap_first_done:
  "client_run asking_env [Send_clicked, Settled 0, Settled 0, Confirm_clicked True, Settled 0]
       example_client =
     \<lparr>ui = (snd (start_confirm asking_env True asked))\<lparr>isProcessing := False\<rparr>,
      runs = [Awaiting_fetch False (Chat_request yes_request)]\<rparr>"
proof -
  have "client_run asking_env [Send_clicked, Settled 0, Settled 0, Confirm_clicked True, Settled 0]
          example_client =
        client_step asking_env
          (client_run asking_env [Send_clicked, Settled 0, Settled 0, Confirm_clicked True]
             example_client)
          (Settled 0)"
    by (simp add: client_run_def)
  also have "\<dots> = \<lparr>ui = (snd (start_confirm asking_env True asked))\<lparr>isProcessing := False\<rparr>,
      runs = [Awaiting_fetch False (Chat_request yes_request)]\<rparr>"
    unfolding overlap_confirmed by (simp add: end_of_run_def)
  finally show ?thesis .
qed

lemma overlap_third:
  "runs (client_run asking_env
           [Send_clicked, Settled 0, Settled 0, Confirm_clicked True, Settled 0,
            Input_typed ''more'', Send_clicked] example_client) =
     [Awaiting_fetch False (Chat_request yes_request),
      Awaiting_fetch True (Chat_request more_request)]"
  "chat_requests (ui (client_run asking_env
           [Send_clicked, Settled 0, Settled 0, Confirm_clicked True, Settled 0,
            Input_typed ''more'', Send_clicked] example_client)) =
     [example_request, yes_request, more_request]"
proof -
  have e: "client_run asking_env
           [Send_clicked, Settled 0, Settled 0, Confirm_clicked True, Settled 0,
            Input_typed ''more'', Send_clicked] example_client =
        client_step asking_env
          (client_step asking_env
             (client_run asking_env
                [Send_clicked, Settled 0, Settled 0, Confirm_clicked True, Settled 0] example_client)
             (Input_typed ''more''))
          Send_clicked"
    by (simp add: client_run_def)
  show "runs (client_run asking_env
           [Send_clicked, Settled 0, Settled 0, Confirm_clicked True, Settled 0,
            Input_typed ''more'', Send_clicked] example_client) =
     [Awaiting_fetch False (Chat_request yes_request),
      Awaiting_fetch True (Chat_request more_request)]"
    unfolding e overlap_first_done
    by (simp add: add_run_def start_send_def type_input_def trim_def js_whitespace_def Let_def
        request_body_def userMessage_of_def begin_send_def push_message_def start_confirm_asked
        more_request_def)
  show "chat_requests (ui (client_run asking_env
           [Send_clicked, Settled 0, Settled 0, Confirm_clicked True, Settled 0,
            Input_typed ''more'', Send_clicked] example_client)) =
     [example_request, yes_request, more_request]"
    unfolding e overlap_first_done
    by (simp add: add_run_def start_send_def type_input_def trim_def js_whitespace_def Let_def
        request_body_def userMessage_of_def begin_send_def push_message_def start_confirm_asked
        more_request_def chat_requests_def emit_def List.map_filter_simps)
qed





text \<open>
  Claim C7 fails when the user answers the confirmation dialog while the run that opened it
  has not returned. The run of \<^verbatim>\<open>handleSend\<close> has read the chunk with the confirmation event
  and waits for the next read, the processing flag is set and the dialog is visible. The user
  confirms: \<^verbatim>\<open>handleConfirmAction\<close> does not read the flag and sends its request, so two
  runs of session \<open>s1\<close> are in flight together. When the first run returns, its
  \<^verbatim>\<open>finally\<close> block clears the flag while the second run is still in flight, and
  \<^verbatim>\<open>handleSend\<close> then sends a third request next to it.
\<close>

theorem confirmation_overlaps_send:
  "runs (client_run asking_env [Send_clicked, Settled 0, Settled 0] example_client) =
     [Awaiting_read True ''Hi'' [] Done] \<and>
   isProcessing (ui (client_run asking_env [Send_clicked, Settled 0, Settled 0] example_client)) \<and>
   isVisible (confirmationState
     (ui (client_run asking_env [Send_clicked, Settled 0, Settled 0] example_client))) \<and>
   runs (client_run asking_env [Send_clicked, Settled 0, Settled 0, Confirm_clicked True]
           example_client) =
     [Awaiting_read True ''Hi'' [] Done, Awaiting_fetch False (Chat_request yes_request)] \<and>
   chat_requests (ui (client_run asking_env
     [Send_clicked, Settled 0, Settled 0, Confirm_clicked True] example_client)) =
     [example_request, yes_request] \<and>
   runs (client_run asking_env [Send_clicked, Settled 0, Settled 0, Confirm_clicked True, Settled 0]
           example_client) =
     [Awaiting_fetch False (Chat_request yes_request)] \<and>
   \<not> isProcessing (ui (client_run asking_env
     [Send_clicked, Settled 0, Settled 0, Confirm_clicked True, Settled 0] example_client)) \<and>
   runs (client_run asking_env
           [Send_clicked, Settled 0, Settled 0, Confirm_clicked True, Settled 0,
            Input_typed ''more'', Send_clicked] example_client) =
     [Awaiting_fetch False (Chat_request yes_request),
      Awaiting_fetch True (Chat_request more_request)] \<and>
   chat_requests (ui (client_run asking_env
           [Send_clicked, Settled 0, Settled 0, Confirm_clicked True, Settled 0,
            Input_typed ''more'', Send_clicked] example_client)) =
     [example_request, yes_request, more_request]"
proof -
  have a: "chat_requests (snd (start_confirm asking_env True asked)) = [example_request, yes_request]"
    by (simp add: chat_requests_def start_confirm_asked List.map_filter_simps)
  show ?thesis
    unfolding asking_read overlap_confirmed overlap_first_done overlap_third
    by (simp add: asked_fields a)
qed

section \<open>Examples for the image, the page, the hook, the bar and the pipeline\<close>

text \<open>
  Claim C8 as stated fails for the list of chat messages: after a turn with an image has
  completed, the user's entry of that turn holds the image.
\<close>

theorem image_kept_in_chat_counterexample:
  "uploadedImage example_image_state = Some ''data:image/png;base64,AAAA'' \<and>
   \<not> isProcessing (handleSend example_env example_image_state) \<and>
   chatMessages (handleSend example_env example_image_state) ! 1 =
     \<lparr>role = User, content = ''list'', image_opt = Some ''data:image/png;base64,AAAA''\<rparr>"
proof -
  have m: "may_send example_image_state"
    by (simp add: may_send_def example_image_state_def image_loaded_def example_state_eq mounted_def
        initial_chat_def trim_def js_whitespace_def)
  have u: "user_entry example_image_state =
      \<lparr>role = User, content = ''list'', image_opt = Some ''data:image/png;base64,AAAA''\<rparr>"
    by (simp add: user_entry_def userMessage_of_def example_image_state_def image_loaded_def example_state_eq
        mounted_def initial_chat_def)
  have l: "length (chatMessages example_image_state) = 1"
    by (simp add: example_image_state_def image_loaded_def example_state_eq mounted_def initial_chat_def)
  have "chatMessages (handleSend example_env example_image_state) ! 1 = user_entry example_image_state"
    using l by (simp add: handleSend_messages_cases [OF m] nth_append)
  with u handleSend_clears_flag [OF m, of example_env] show ?thesis
    by (simp add: example_image_state_def image_loaded_def)
qed

text \<open>
  Claim C8, as amended, on the example with a pasted image.
\<close>

theorem image_cleared_from_pending_state_witness:
  "may_send example_image_state \<and>
   uploadedImage example_image_state = Some ''data:image/png;base64,AAAA'' \<and>
   ''data:image/png;base64,AAAA'' \<noteq> [] \<and>
   image_base64 (send_request example_image_state) = Some ''AAAA'' \<and>
   uploadedImage (handleSend example_env example_image_state) = None \<and>
   imagePreviewUrl (handleSend example_env example_image_state) = None \<and>
   image_base64 (send_request
     ((handleSend example_env example_image_state)\<lparr>userInput := ''next''\<rparr>)) = None"
proof -
  have m: "may_send example_image_state"
    by (simp add: may_send_def example_image_state_def image_loaded_def example_state_eq mounted_def
        initial_chat_def trim_def js_whitespace_def)
  have i: "uploadedImage example_image_state = Some ''data:image/png;base64,AAAA''"
    by (simp add: example_image_state_def image_loaded_def)
  have n: "''data:image/png;base64,AAAA'' \<noteq> []" by simp
  have s: "(if js_includes ''data:image/png;base64,AAAA'' ''base64,''
            then js_split ''data:image/png;base64,AAAA'' ''base64,'' ! 1
            else ''data:image/png;base64,AAAA'') = ''AAAA''"
    by (simp add: js_split_def)
  from image_cleared_from_pending_state [OF m i n, of example_env]
  show ?thesis using m i s by simp
qed

text \<open>
  Claim C6 on the path of the stops and paths page.
\<close>

theorem context_page_of_pathname_witness:
  "may_send (detect_page_effect ''/dashboard/stops-paths'' example_state) \<and>
   detectedPage ''/dashboard/stops-paths'' = ''stops_paths'' \<and>
   chat_requests (handleSend example_env (detect_page_effect ''/dashboard/stops-paths'' example_state)) =
     [\<lparr>message = ''list'', session_id = ''s1'', context_page = ''stops_paths'',
       image_base64 = None\<rparr>]"
proof -
  let ?st = "detect_page_effect ''/dashboard/stops-paths'' example_state"
  have m: "may_send ?st"
    by (simp add: may_send_def detect_page_effect_def example_state_eq mounted_def
        initial_chat_def trim_def js_whitespace_def)
  have d: "detectedPage ''/dashboard/stops-paths'' = ''stops_paths''"
    by (simp add: detectedPage_def)
  have r: "send_request ?st =
     \<lparr>message = ''list'', session_id = ''s1'', context_page = ''stops_paths'',
       image_base64 = None\<rparr>"
    by (simp add: send_request_def request_body_def begin_send_def push_message_def
        userMessage_of_def detect_page_effect_def d example_state_eq mounted_def initial_chat_def)
  have c: "chat_requests example_state = []"
    by (simp add: chat_requests_def example_state_eq mounted_def initial_chat_def
        List.map_filter_simps)
  from context_page_of_pathname [of "''/dashboard/stops-paths''" example_state example_env]
  show ?thesis using m d r c by simp
qed

text \<open>
  Claim C10 on a session identifier of two spaces, and on the identifier \<open>s1\<close>.
\<close>

theorem voice_hook_needs_session_id_witness:
  "blank (chatSessionId (mounted ''  '' ''routes'')) \<and>
   network (connectWebSocket (mounted ''  '' ''routes'')) = [] \<and>
   network (voice_mount_effect (mounted ''  '' ''routes'')) = [] \<and>
   voice (voice_mount_effect (mounted ''  '' ''routes'')) = initial_voice \<and>
   blank ''  '' \<and>
   network (hook_run example_env [Mount, Socket_opened, Context_changed, Confirmation True]
              (mounted ''  '' ''routes'')) = [] \<and>
   Ws_send (Init ''s1'' ''routes'') \<in>
     set (trace (hook_run example_env [Mount, Socket_opened] (mounted ''s1'' ''routes''))) \<and>
   \<not> blank ''s1''"
proof -
  have b: "blank ''  ''" by (simp add: blank_def js_whitespace_def)
  have b': "blank (chatSessionId (mounted ''  '' ''routes''))"
    by (simp add: mounted_def initial_chat_def b)
  have n: "network (mounted ''  '' ''routes'') = []" "voice (mounted ''  '' ''routes'') = initial_voice"
    by (simp_all add: network_def mounted_def initial_chat_def)
  have i: "Ws_send (Init ''s1'' ''routes'') \<in>
     set (trace (hook_run example_env [Mount, Socket_opened] (mounted ''s1'' ''routes'')))"
    by (simp add: hook_run_def voice_mount_effect_def connectWebSocket_def ws_onopen_def emit_def
        mounted_def initial_chat_def initial_voice_def trim_def js_whitespace_def)
  from voice_hook_needs_session_id [of "mounted ''  '' ''routes''" "''  ''" example_env
      "[Mount, Socket_opened, Context_changed, Confirmation True]" "''routes''"]
    voice_hook_needs_session_id [of "mounted ''  '' ''routes''" "''s1''" example_env
      "[Mount, Socket_opened]" "''routes''" "''s1''" "''routes''"]
  show ?thesis using b b' n i by simp
qed

text \<open>
  Claim C9 without rounding, on 150, on -20 and on 75 out of 100.
\<close>

theorem progress_bar_percentage_bounds_witness:
  "(\<forall>r. Fin r \<noteq> NaN) \<and> (0::real) < 100 \<and>
   within_0_100 (percentage Fin (Fin 150) (Fin 100)) \<and>
   percentage Fin (Fin 150) (Fin 100) = Fin 100 \<and>
   percentage Fin (Fin (-20)) (Fin 100) = Fin 0 \<and>
   percentage Fin (Fin 75) (Fin 100) = Fin 75 \<and>
   percentage Fin (Fin 0) (Fin 0) = NaN"
proof -
  have h: "\<forall>r. Fin r \<noteq> NaN" "(0::real) < 100" by simp_all
  from progress_bar_percentage_bounds [OF h, of 150] progress_bar_percentage_bounds [OF h, of "-20"]
    progress_bar_percentage_bounds [OF h, of 75]
  show ?thesis by simp
qed

text \<open>
  Claim C1 on the example registry: the trip is still there after the submit and after a
  rejection, and gone after an approval.
\<close>

theorem high_impact_waits_for_approval_witness:
  "''s1'' \<notin> leases example_engine \<and>
   selected_tool (analysed example_collaborators ''s1'' ''delete Morning Express'' ''busDashboard''
                    None example_engine) = Some ''delete_trip'' \<and>
   registry example_collaborators ''delete_trip'' = example_registry ''delete_trip'' \<and>
   map_option impact_level (example_registry ''delete_trip'') = Some High \<and>
   fst (submit example_collaborators ''s1'' ''delete Morning Express'' ''busDashboard'' None
          example_engine) =
     Interrupt (InterruptPayload ''This trip has bookings. Delete it?''
                  (JObj [(''tool'', JStr ''delete_trip'')])) \<and>
   persistence (suspended example_collaborators ''s1'' ''delete Morning Express'' ''busDashboard''
                  None example_engine) = [''Morning Express'', ''Evening Run''] \<and>
   persistence (snd (resume example_collaborators ''s1'' False
      (suspended example_collaborators ''s1'' ''delete Morning Express'' ''busDashboard''
         None example_engine))) = [''Morning Express'', ''Evening Run''] \<and>
   persistence (snd (resume example_collaborators ''s1'' True
      (suspended example_collaborators ''s1'' ''delete Morning Express'' ''busDashboard''
         None example_engine))) = [''Evening Run'']"
proof -
  let ?d = "\<lparr>parameter_schema = [(''trip_name'', True)], impact_level = High,
                 handler = (\<lambda>ents db.
                   case map_of ents ''trip_name'' of
                     Some (JStr name) \<Rightarrow>
                       if name \<in> set db then (Inr (JStr name), remove1 name db)
                       else (Inl ''trip not found'', db)
                   | _ \<Rightarrow> (Inl ''trip not found'', db))\<rparr>"
  have h1: "''s1'' \<notin> leases example_engine" by (simp add: example_engine_def)
  have h2: "selected_tool (analysed example_collaborators ''s1'' ''delete Morning Express''
              ''busDashboard'' None example_engine) = Some ''delete_trip''"
    by (simp add: analysed_def intent_tool_selector_def example_collaborators_def Let_def)
  have h3: "registry example_collaborators ''delete_trip'' = Some ?d"
    by (simp add: example_collaborators_def example_registry_def)
  have h4: "impact_level ?d = High" by simp
  have e: "entities_of (analysed example_collaborators ''s1'' ''delete Morning Express''
              ''busDashboard'' None example_engine) = [(''trip_name'', JStr ''Morning Express'')]"
    by (simp add: analysed_def intent_tool_selector_def example_collaborators_def Let_def
        entities_of_def)
  have s: "fst (submit example_collaborators ''s1'' ''delete Morning Express'' ''busDashboard'' None
          example_engine) =
     Interrupt (InterruptPayload ''This trip has bookings. Delete it?''
                  (JObj [(''tool'', JStr ''delete_trip'')]))"
    using h1 h2 h3
    by (simp add: submit_def analysed_def suspend_def Let_def)
       (simp add: example_collaborators_def)
  have g1: "registry example_collaborators ''delete_trip'' = example_registry ''delete_trip''"
    by (simp add: example_collaborators_def)
  have g2: "map_option impact_level (example_registry ''delete_trip'') = Some High"
    by (simp add: example_registry_def)
  have p: "persistence example_engine = [''Morning Express'', ''Evening Run'']"
    by (simp add: example_engine_def)
  have mp: "missing_parameters (parameter_schema ?d) [(''trip_name'', JStr ''Morning Express'')] = []"
    by (simp add: missing_parameters_def)
  have hd: "snd (handler ?d [(''trip_name'', JStr ''Morning Express'')]
                  [''Morning Express'', ''Evening Run'']) = [''Evening Run'']"
    by simp
  note T = high_impact_waits_for_approval [OF h1 h2 h3 h4, unfolded e p]
  from T have t2: "persistence (suspended example_collaborators ''s1'' ''delete Morning Express''
      ''busDashboard'' None example_engine) = [''Morning Express'', ''Evening Run'']"
    by (rule conjunct1 [OF conjunct2])
  from T have t4: "persistence (snd (resume example_collaborators ''s1'' False
      (suspended example_collaborators ''s1'' ''delete Morning Express'' ''busDashboard''
         None example_engine))) = [''Morning Express'', ''Evening Run'']"
    by (rule conjunct1 [OF conjunct2 [OF conjunct2 [OF conjunct2]]])
  from T have "missing_parameters (parameter_schema ?d) [(''trip_name'', JStr ''Morning Express'')] = []
      \<longrightarrow> persistence (snd (resume example_collaborators ''s1'' True
      (suspended example_collaborators ''s1'' ''delete Morning Express'' ''busDashboard''
         None example_engine))) =
       snd (handler ?d [(''trip_name'', JStr ''Morning Express'')]
                  [''Morning Express'', ''Evening Run''])"
    by (rule conjunct2 [OF conjunct2 [OF conjunct2 [OF conjunct2 [OF conjunct2]]]])
  with mp hd have t6: "persistence (snd (resume example_collaborators ''s1'' True
      (suspended example_collaborators ''s1'' ''delete Morning Express'' ''busDashboard''
         None example_engine))) = [''Evening Run'']"
    by simp
  from h1 h2 g1 g2 s t2 t4 t6 show ?thesis by simp
qed

end
